theory Spec2Isabelle
  imports Main
begin

section \<open>Data model\<close>

text \<open>
  The tables the route handlers reach through the Prisma client. Identifiers are strings,
  timestamps are the milliseconds of \<^verbatim>\<open>Date.getTime()\<close>, the numeric columns are
  integers. Only the columns the handlers of \<^verbatim>\<open>routes/lessons.ts\<close>,
  \<^verbatim>\<open>routes/users.ts\<close> (streak) and \<^verbatim>\<open>routes/languages.ts\<close> (enroll, unenroll)
  read or write are kept. A table with a unique key is a map from that key
  (\<^verbatim>\<open>userId_languageId\<close> for enrollments, \<^verbatim>\<open>userId_lessonId\<close> for progress);
  exercises and achievements are lists, in insertion order.
\<close>

record user =
  experience :: int
  level :: int
  streak :: int
  lastLogin :: "int option"

record language =
  language_isActive :: bool

record lesson =
  lesson_languageId :: string
  lesson_title :: string
  lesson_isActive :: bool

record exercise =
  exercise_lessonId :: string
  exercise_isActive :: bool
  points :: int

record enrollment =
  enrollment_id :: string
  enrollment_level :: int
  enrollment_isActive :: bool
  startedAt :: int

record progress =
  enrollmentId :: string
  score :: int
  timeSpent :: int
  completed :: bool
  completedAt :: "int option"

record achievement =
  ach_userId :: string
  ach_type :: string
  ach_title :: string
  ach_description :: string
  ach_icon :: "nat list"

record db =
  user_tbl :: "string \<rightharpoonup> user"
  language_tbl :: "string \<rightharpoonup> language"
  lesson_tbl :: "string \<rightharpoonup> lesson"
  exercise_tbl :: "exercise list"
  enrollment_tbl :: "string \<times> string \<rightharpoonup> enrollment"
  progress_tbl :: "string \<times> string \<rightharpoonup> progress"
  achievement_tbl :: "achievement list"

text \<open>
  Every handler body is a \<^verbatim>\<open>try\<close> block whose \<^verbatim>\<open>catch\<close> answers 500. A call of
  the Prisma client can throw (connectivity, constraint); which calls do is a parameter
  of the model, one name per call site. The writes made before the throwing call stay:
  no handler opens a transaction.
\<close>

datatype call_site =
    CL_LessonFindUnique | CL_EnrollmentFindFirst | CL_ExerciseFindMany
  | CL_ProgressUpsert | CL_UserFindUnique | CL_UserUpdate | CL_LevelUpCreate
  | CL_AchievementFindFirst | CL_PerfectScoreCreate
  | ST_UserFindUnique | ST_StreakReset | ST_StreakUpdate
  | EN_LanguageFindUnique | EN_EnrollmentFindUnique | EN_EnrollmentUpdate
  | EN_EnrollmentCreate
  | UN_EnrollmentFindUnique | UN_EnrollmentUpdate

type_synonym faults = "call_site \<Rightarrow> bool"

definition no_faults :: faults where
  "no_faults = (\<lambda>c. False)"

text \<open>The failure answers of the handlers: the 404, 403, 400 and 500 responses.\<close>

datatype error =
    LessonNotFound | NotEnrolled | UserNotFound | LanguageNotFound
  | AlreadyEnrolled | EnrollmentNotFound | Internal

section \<open>Template literals\<close>

text \<open>\<^verbatim>\<open>`${n}`\<close> for an integer \<open>n\<close>: its decimal digits, with a minus sign when negative.\<close>

definition digitChar :: "nat \<Rightarrow> char" where
  "digitChar d = ''0123456789'' ! d"

fun natToString :: "nat \<Rightarrow> string" where
  "natToString n =
     (if n < 10 then [digitChar n] else natToString (n div 10) @ [digitChar (n mod 10)])"

declare natToString.simps [simp del]

definition intToString :: "int \<Rightarrow> string" where
  "intToString i =
     (if i < 0 then CHR ''-'' # natToString (nat (- i)) else natToString (nat i))"

section \<open>Lesson completion: \<^verbatim>\<open>POST /:id/complete\<close>\<close>

record complete_response =
  resp_progress :: progress
  resp_experienceGained :: int
  resp_newLevel :: int

text \<open>\<^verbatim>\<open>prisma.lesson.findUnique({ where: { id, isActive: true } })\<close>\<close>

definition findActiveLesson :: "db \<Rightarrow> string \<Rightarrow> lesson option" where
  "findActiveLesson d lessonId =
     (case lesson_tbl d lessonId of
        None \<Rightarrow> None
      | Some l \<Rightarrow> if lesson_isActive l then Some l else None)"

text \<open>\<^verbatim>\<open>prisma.enrollment.findFirst({ where: { userId, languageId, isActive: true } })\<close>\<close>

definition findActiveEnrollment :: "db \<Rightarrow> string \<Rightarrow> string \<Rightarrow> enrollment option" where
  "findActiveEnrollment d userId languageId =
     (case enrollment_tbl d (userId, languageId) of
        None \<Rightarrow> None
      | Some e \<Rightarrow> if enrollment_isActive e then Some e else None)"

text \<open>\<^verbatim>\<open>prisma.exercise.findMany({ where: { lessonId, isActive: true } })\<close>\<close>

definition activeExercises :: "db \<Rightarrow> string \<Rightarrow> exercise list" where
  "activeExercises d lessonId =
     filter (\<lambda>ex. exercise_lessonId ex = lessonId \<and> exercise_isActive ex) (exercise_tbl d)"

text \<open>\<^verbatim>\<open>exercises.reduce((sum, ex) => sum + ex.points, 0)\<close>\<close>

definition sumPoints :: "exercise list \<Rightarrow> int" where
  "sumPoints exs = foldl (\<lambda>sum ex. sum + points ex) 0 exs"

text \<open>
  \<^verbatim>\<open>prisma.progress.upsert\<close> on the key (userId, lessonId): an existing row keeps its
  \<^verbatim>\<open>enrollmentId\<close>, a new one takes the enrollment found.
\<close>

definition upsertProgress ::
  "db \<Rightarrow> string \<Rightarrow> string \<Rightarrow> string \<Rightarrow> int \<Rightarrow> int \<Rightarrow> int \<Rightarrow> progress \<times> db" where
  "upsertProgress d userId lessonId enrId finalScore spent now =
     (let p = (case progress_tbl d (userId, lessonId) of
                 Some old \<Rightarrow>
                   old\<lparr>score := finalScore, timeSpent := spent,
                       completed := True, completedAt := Some now\<rparr>
               | None \<Rightarrow>
                   \<lparr>enrollmentId = enrId, score = finalScore, timeSpent = spent,
                    completed = True, completedAt = Some now\<rparr>)
      in (p, d\<lparr>progress_tbl := (progress_tbl d)((userId, lessonId) \<mapsto> p)\<rparr>))"

definition levelUpAchievement :: "string \<Rightarrow> int \<Rightarrow> achievement" where
  "levelUpAchievement userId newLevel =
     \<lparr>ach_userId = userId, ach_type = ''level_up'',
      ach_title = ''Level '' @ intToString newLevel @ ''!'',
      ach_description = ''Congratulations! You've reached level '' @ intToString newLevel,
      ach_icon = [0x1F389]\<rparr>"

definition perfectScoreAchievement :: "string \<Rightarrow> string \<Rightarrow> achievement" where
  "perfectScoreAchievement userId lessonTitle =
     \<lparr>ach_userId = userId, ach_type = ''perfect_score'',
      ach_title = ''Perfect Score in '' @ lessonTitle,
      ach_description = ''You got a perfect score in '' @ lessonTitle @ ''!'',
      ach_icon = [0x2B50]\<rparr>"

text \<open>
  The block "Update user experience and level" (lines 216-247): the user row is read,
  and when it is there the new experience and the level derived from it are written and
  a level-up achievement is created if the level rose. The row read is returned for the
  response.
\<close>

definition updateExperience ::
  "faults \<Rightarrow> db \<Rightarrow> string \<Rightarrow> int \<Rightarrow> (error + user option) \<times> db" where
  "updateExperience fails d userId experienceGained =
     (if fails CL_UserFindUnique then (Inl Internal, d)
      else case user_tbl d userId of
        None \<Rightarrow> (Inr None, d)
      | Some u \<Rightarrow>
          (let newExperience = experience u + experienceGained;
               newLevel = newExperience div 100 + 1
           in if fails CL_UserUpdate then (Inl Internal, d)
              else
                (let d1 = d\<lparr>user_tbl := (user_tbl d)(userId \<mapsto>
                            u\<lparr>experience := newExperience, level := newLevel\<rparr>)\<rparr>
                 in if newLevel > level u then
                      (if fails CL_LevelUpCreate then (Inl Internal, d1)
                       else (Inr (Some u),
                             d1\<lparr>achievement_tbl := achievement_tbl d1 @
                                  [levelUpAchievement userId newLevel]\<rparr>))
                    else (Inr (Some u), d1))))"

text \<open>
  \<^verbatim>\<open>prisma.achievement.findFirst({ where: { userId, type: 'perfect_score', title } })\<close>
\<close>

definition findPerfectScore :: "db \<Rightarrow> string \<Rightarrow> string \<Rightarrow> achievement option" where
  "findPerfectScore d userId ttl =
     find (\<lambda>a. ach_userId a = userId \<and> ach_type a = ''perfect_score'' \<and> ach_title a = ttl)
       (achievement_tbl d)"

text \<open>The block "Check for perfect score achievement" (lines 249-270).\<close>

definition checkPerfectScore ::
  "faults \<Rightarrow> db \<Rightarrow> string \<Rightarrow> lesson \<Rightarrow> int \<Rightarrow> int \<Rightarrow> error option \<times> db" where
  "checkPerfectScore fails d userId l finalScore totalPoints =
     (if finalScore = totalPoints then
        (if fails CL_AchievementFindFirst then (Some Internal, d)
         else case findPerfectScore d userId (''Perfect Score in '' @ lesson_title l) of
           Some existing \<Rightarrow> (None, d)
         | None \<Rightarrow>
             (if fails CL_PerfectScoreCreate then (Some Internal, d)
              else (None, d\<lparr>achievement_tbl := achievement_tbl d @
                                [perfectScoreAchievement userId (lesson_title l)]\<rparr>)))
      else (None, d))"

text \<open>
  Lines 182-277, what the handler does once the lesson \<open>l\<close> and the active enrollment
  \<open>enr\<close> are found: the score is clamped, the progress row is written, the experience
  is accrued, the perfect score is checked and the response is built.
\<close>

definition recordCompletion ::
  "faults \<Rightarrow> db \<Rightarrow> string \<Rightarrow> string \<Rightarrow> lesson \<Rightarrow> enrollment \<Rightarrow> int \<Rightarrow> int \<Rightarrow> int
     \<Rightarrow> (error + complete_response) \<times> db" where
  "recordCompletion fails d userId lessonId l enr rawScore spent now =
     (if fails CL_ExerciseFindMany then (Inl Internal, d)
      else
        (let totalPoints = sumPoints (activeExercises d lessonId);
             finalScore = min rawScore totalPoints
         in if fails CL_ProgressUpsert then (Inl Internal, d)
            else
              (let (prog, d1) =
                     upsertProgress d userId lessonId (enrollment_id enr) finalScore spent now;
                   experienceGained = finalScore div 10
               in case updateExperience fails d1 userId experienceGained of
                    (Inl e, d2) \<Rightarrow> (Inl e, d2)
                  | (Inr usr, d2) \<Rightarrow>
                      (case checkPerfectScore fails d2 userId l finalScore totalPoints of
                         (Some e, d3) \<Rightarrow> (Inl e, d3)
                       | (None, d3) \<Rightarrow>
                           (Inr \<lparr>resp_progress = prog,
                                 resp_experienceGained = experienceGained,
                                 resp_newLevel =
                                   (case usr of
                                      Some u \<Rightarrow> (experience u + experienceGained) div 100 + 1
                                    | None \<Rightarrow> 1)\<rparr>,
                            d3)))))"

text \<open>
  The handler. \<open>rawScore\<close> and \<open>spent\<close> are \<^verbatim>\<open>score\<close> and \<^verbatim>\<open>timeSpent\<close> of the
  request body, \<open>now\<close> is \<^verbatim>\<open>new Date()\<close>. The body is not validated: the score is
  any integer, negative ones included. The result is the response and the database as
  the handler leaves it.
\<close>

definition completeLesson ::
  "faults \<Rightarrow> db \<Rightarrow> string \<Rightarrow> string \<Rightarrow> int \<Rightarrow> int \<Rightarrow> int
     \<Rightarrow> (error + complete_response) \<times> db" where
  "completeLesson fails d userId lessonId rawScore spent now =
     (if fails CL_LessonFindUnique then (Inl Internal, d)
      else case findActiveLesson d lessonId of
        None \<Rightarrow> (Inl LessonNotFound, d)
      | Some l \<Rightarrow>
          (if fails CL_EnrollmentFindFirst then (Inl Internal, d)
           else case findActiveEnrollment d userId (lesson_languageId l) of
             None \<Rightarrow> (Inl NotEnrolled, d)
           | Some enr \<Rightarrow> recordCompletion fails d userId lessonId l enr rawScore spent now))"

section \<open>Streak check: \<^verbatim>\<open>GET /streak\<close>\<close>

record streak_response =
  resp_streak :: int
  resp_lastLogin :: "int option"

text \<open>
  \<^verbatim>\<open>Math.floor((today.getTime() - lastLogin.getTime()) / (1000 * 60 * 60 * 24))\<close>;
  \<open>div\<close> on \<open>int\<close> rounds down, as \<^verbatim>\<open>Math.floor\<close> does.
\<close>

definition daysSinceLastLogin :: "int \<Rightarrow> int \<Rightarrow> int" where
  "daysSinceLastLogin today ll = (today - ll) div (1000 * 60 * 60 * 24)"

text \<open>
  Lines 220-240: the flag \<^verbatim>\<open>shouldUpdateStreak\<close>, the handler's copy of the user and
  the database after the reset, if any; \<open>Inl\<close> when the reset's update throws.
\<close>

definition streakGap ::
  "faults \<Rightarrow> db \<Rightarrow> string \<Rightarrow> user \<Rightarrow> int \<Rightarrow> db + bool \<times> user \<times> db" where
  "streakGap fails d userId u today =
     (case lastLogin u of
        Some ll \<Rightarrow>
          (let days = daysSinceLastLogin today ll
           in if days = 1 then Inr (True, u, d)
              else if days > 1 then
                (if fails ST_StreakReset then Inl d
                 else Inr (False, u\<lparr>streak := 0\<rparr>,
                           d\<lparr>user_tbl := (user_tbl d)(userId \<mapsto> u\<lparr>streak := 0\<rparr>)\<rparr>))
              else Inr (False, u, d))
      | None \<Rightarrow> Inr (True, u, d))"

text \<open>
  The handler; \<open>today\<close> is \<^verbatim>\<open>new Date()\<close>. The response carries the handler's copy
  of \<^verbatim>\<open>lastLogin\<close>, which no line of the handler assigns.
\<close>

definition streakCheck ::
  "faults \<Rightarrow> db \<Rightarrow> string \<Rightarrow> int \<Rightarrow> (error + streak_response) \<times> db" where
  "streakCheck fails d userId today =
     (if fails ST_UserFindUnique then (Inl Internal, d)
      else case user_tbl d userId of
        None \<Rightarrow> (Inl UserNotFound, d)
      | Some u \<Rightarrow>
          (case streakGap fails d userId u today of
             Inl d1 \<Rightarrow> (Inl Internal, d1)
           | Inr (shouldUpdateStreak, u1, d1) \<Rightarrow>
               (if shouldUpdateStreak then
                  (let newStreak = streak u1 + 1
                   in if fails ST_StreakUpdate then (Inl Internal, d1)
                      else (Inr \<lparr>resp_streak = newStreak, resp_lastLogin = lastLogin u1\<rparr>,
                            d1\<lparr>user_tbl := (user_tbl d1)(userId \<mapsto>
                                  u1\<lparr>streak := newStreak\<rparr>)\<rparr>))
                else (Inr \<lparr>resp_streak = streak u1, resp_lastLogin = lastLogin u1\<rparr>, d1))))"

section \<open>Enrollment: \<^verbatim>\<open>POST /:id/enroll\<close> and \<^verbatim>\<open>DELETE /:id/enroll\<close>\<close>

datatype enroll_response = EnrollmentReactivated | EnrollmentCreated enrollment

text \<open>\<^verbatim>\<open>prisma.language.findUnique({ where: { id, isActive: true } })\<close>\<close>

definition findActiveLanguage :: "db \<Rightarrow> string \<Rightarrow> language option" where
  "findActiveLanguage d languageId =
     (case language_tbl d languageId of
        None \<Rightarrow> None
      | Some g \<Rightarrow> if language_isActive g then Some g else None)"

text \<open>
  \<open>newId\<close> is the identifier the database gives the created row, \<open>now\<close> is
  \<^verbatim>\<open>new Date()\<close>; a created row takes it as \<^verbatim>\<open>startedAt\<close> too, which the
  handler leaves to the column's default.
\<close>

definition enroll ::
  "faults \<Rightarrow> db \<Rightarrow> string \<Rightarrow> string \<Rightarrow> string \<Rightarrow> int \<Rightarrow> (error + enroll_response) \<times> db" where
  "enroll fails d userId languageId newId now =
     (if fails EN_LanguageFindUnique then (Inl Internal, d)
      else case findActiveLanguage d languageId of
        None \<Rightarrow> (Inl LanguageNotFound, d)
      | Some g \<Rightarrow>
          (if fails EN_EnrollmentFindUnique then (Inl Internal, d)
           else case enrollment_tbl d (userId, languageId) of
             Some existing \<Rightarrow>
               (if enrollment_isActive existing then (Inl AlreadyEnrolled, d)
                else if fails EN_EnrollmentUpdate then (Inl Internal, d)
                else (Inr EnrollmentReactivated,
                      d\<lparr>enrollment_tbl := (enrollment_tbl d)((userId, languageId) \<mapsto>
                            existing\<lparr>enrollment_isActive := True, startedAt := now\<rparr>)\<rparr>))
           | None \<Rightarrow>
               (if fails EN_EnrollmentCreate then (Inl Internal, d)
                else
                  (let e = \<lparr>enrollment_id = newId, enrollment_level = 1,
                            enrollment_isActive = True, startedAt = now\<rparr>
                   in (Inr (EnrollmentCreated e),
                       d\<lparr>enrollment_tbl := (enrollment_tbl d)((userId, languageId) \<mapsto> e)\<rparr>)))))"

definition unenroll :: "faults \<Rightarrow> db \<Rightarrow> string \<Rightarrow> string \<Rightarrow> (error + unit) \<times> db" where
  "unenroll fails d userId languageId =
     (if fails UN_EnrollmentFindUnique then (Inl Internal, d)
      else case enrollment_tbl d (userId, languageId) of
        None \<Rightarrow> (Inl EnrollmentNotFound, d)
      | Some e \<Rightarrow>
          (if fails UN_EnrollmentUpdate then (Inl Internal, d)
           else (Inr (),
                 d\<lparr>enrollment_tbl := (enrollment_tbl d)((userId, languageId) \<mapsto>
                       e\<lparr>enrollment_isActive := False\<rparr>)\<rparr>)))"

section \<open>Properties stated over the handlers\<close>

text \<open>Every stored user has the level its experience gives.\<close>

definition levelInvariant :: "db \<Rightarrow> bool" where
  "levelInvariant d = (\<forall>k u. user_tbl d k = Some u \<longrightarrow> level u = experience u div 100 + 1)"

text \<open>The number of perfect-score achievements a user holds under one title.\<close>

definition perfectCount :: "db \<Rightarrow> string \<Rightarrow> string \<Rightarrow> nat" where
  "perfectCount d userId ttl =
     length (filter (\<lambda>a. ach_userId a = userId \<and> ach_type a = ''perfect_score'' \<and>
                          ach_title a = ttl) (achievement_tbl d))"

text \<open>
  A run of completion requests (user, lesson, score, time spent, time of the request),
  each on the database the one before left.
\<close>

fun completeAll ::
  "faults \<Rightarrow> db \<Rightarrow> (string \<times> string \<times> int \<times> int \<times> int) list \<Rightarrow> db" where
  "completeAll fails d [] = d"
| "completeAll fails d ((userId, lessonId, rawScore, spent, now) # reqs) =
     completeAll fails (snd (completeLesson fails d userId lessonId rawScore spent now)) reqs"

section \<open>A database for the scenarios\<close>

text \<open>
  One active language with two active lessons: "Basic Greetings" with exercises worth
  10 + 10 + 15 + 15 = 50 points (and one retired exercise), "Colors" with no exercise yet.
  Users u1 (experience 95, level 1, streak 3, last login at time 0) and u3 (experience
  100, level 2) are enrolled, u2 has unenrolled. Nobody has progress or achievements.
\<close>

definition exampleDb :: db where
  "exampleDb =
     \<lparr>user_tbl = [''u1'' \<mapsto> \<lparr>experience = 95, level = 1, streak = 3, lastLogin = Some 0\<rparr>,
                  ''u2'' \<mapsto> \<lparr>experience = 0, level = 1, streak = 0, lastLogin = None\<rparr>,
                  ''u3'' \<mapsto> \<lparr>experience = 100, level = 2, streak = 0, lastLogin = None\<rparr>],
      language_tbl = [''es'' \<mapsto> \<lparr>language_isActive = True\<rparr>],
      lesson_tbl =
        [''l1'' \<mapsto> \<lparr>lesson_languageId = ''es'', lesson_title = ''Basic Greetings'',
                    lesson_isActive = True\<rparr>,
         ''l2'' \<mapsto> \<lparr>lesson_languageId = ''es'', lesson_title = ''Colors'',
                    lesson_isActive = True\<rparr>],
      exercise_tbl =
        [\<lparr>exercise_lessonId = ''l1'', exercise_isActive = True, points = 10\<rparr>,
         \<lparr>exercise_lessonId = ''l1'', exercise_isActive = True, points = 10\<rparr>,
         \<lparr>exercise_lessonId = ''l1'', exercise_isActive = False, points = 10\<rparr>,
         \<lparr>exercise_lessonId = ''l1'', exercise_isActive = True, points = 15\<rparr>,
         \<lparr>exercise_lessonId = ''l1'', exercise_isActive = True, points = 15\<rparr>],
      enrollment_tbl =
        [(''u1'', ''es'') \<mapsto> \<lparr>enrollment_id = ''e1'', enrollment_level = 1,
                              enrollment_isActive = True, startedAt = 0\<rparr>,
         (''u2'', ''es'') \<mapsto> \<lparr>enrollment_id = ''e2'', enrollment_level = 1,
                              enrollment_isActive = False, startedAt = 0\<rparr>,
         (''u3'', ''es'') \<mapsto> \<lparr>enrollment_id = ''e3'', enrollment_level = 1,
                              enrollment_isActive = True, startedAt = 0\<rparr>],
      progress_tbl = Map.empty,
      achievement_tbl = []\<rparr>"

definition day :: int where
  "day = 1000 * 60 * 60 * 24"

section \<open>Auxiliary facts\<close>

lemma sumPoints_sum_list: "sumPoints exs = sum_list (map points exs)"
proof -
  have "foldl (\<lambda>sum ex. sum + points ex) a exs = a + sum_list (map points exs)" for a
    by (induction exs arbitrary: a) simp_all
  then show ?thesis by (simp add: sumPoints_def)
qed

lemma achievement_sel:
  "ach_userId (levelUpAchievement u n) = u"
  "ach_type (levelUpAchievement u n) = ''level_up''"
  "ach_title (levelUpAchievement u n) = ''Level '' @ intToString n @ ''!''"
  "ach_userId (perfectScoreAchievement u t) = u"
  "ach_type (perfectScoreAchievement u t) = ''perfect_score''"
  "ach_title (perfectScoreAchievement u t) = ''Perfect Score in '' @ t"
  by (simp_all add: levelUpAchievement_def perfectScoreAchievement_def)

subsection \<open>The progress upsert\<close>

lemma upsertProgress_row:
  "progress_tbl (snd (upsertProgress d u l e fs sp now)) (u, l) = Some (fst (upsertProgress d u l e fs sp now))"
  by (simp add: upsertProgress_def Let_def)

lemma upsertProgress_score: "score (fst (upsertProgress d u l e fs sp now)) = fs"
  by (simp add: upsertProgress_def Let_def split: option.split)

lemma upsertProgress_frame:
  "user_tbl (snd (upsertProgress d u l e fs sp now)) = user_tbl d"
  "achievement_tbl (snd (upsertProgress d u l e fs sp now)) = achievement_tbl d"
  "lesson_tbl (snd (upsertProgress d u l e fs sp now)) = lesson_tbl d"
  "exercise_tbl (snd (upsertProgress d u l e fs sp now)) = exercise_tbl d"
  "enrollment_tbl (snd (upsertProgress d u l e fs sp now)) = enrollment_tbl d"
  "language_tbl (snd (upsertProgress d u l e fs sp now)) = language_tbl d"
  by (simp_all add: upsertProgress_def Let_def)

subsection \<open>The experience update\<close>

lemma updateExperience_frame:
  "progress_tbl (snd (updateExperience fails d u g)) = progress_tbl d"
  "lesson_tbl (snd (updateExperience fails d u g)) = lesson_tbl d"
  "exercise_tbl (snd (updateExperience fails d u g)) = exercise_tbl d"
  "enrollment_tbl (snd (updateExperience fails d u g)) = enrollment_tbl d"
  "language_tbl (snd (updateExperience fails d u g)) = language_tbl d"
  by (simp_all add: updateExperience_def Let_def split: option.split)

lemma updateExperience_Inr:
  assumes "fst (updateExperience fails d userId g) = Inr usr"
  shows "usr = user_tbl d userId"
    and "user_tbl (snd (updateExperience fails d userId g)) =
           (case usr of None \<Rightarrow> user_tbl d
            | Some u \<Rightarrow> (user_tbl d)(userId \<mapsto>
                u\<lparr>experience := experience u + g, level := (experience u + g) div 100 + 1\<rparr>))"
    and "achievement_tbl (snd (updateExperience fails d userId g)) =
           achievement_tbl d @
           (case usr of None \<Rightarrow> []
            | Some u \<Rightarrow> if (experience u + g) div 100 + 1 > level u
                then [levelUpAchievement userId ((experience u + g) div 100 + 1)] else [])"
  using assms
  by (cases "user_tbl d userId"; auto simp: updateExperience_def Let_def split: if_splits)+

lemma updateExperience_rows:
  assumes "user_tbl (snd (updateExperience fails d userId g)) k = Some u'"
  shows "user_tbl d k = Some u' \<or> (k = userId \<and> level u' = experience u' div 100 + 1)"
  using assms
  by (auto simp: updateExperience_def Let_def split: option.splits if_splits)

lemma updateExperience_perfect:
  "filter (\<lambda>a. ach_type a = ''perfect_score'') (achievement_tbl (snd (updateExperience fails d userId g)))
   = filter (\<lambda>a. ach_type a = ''perfect_score'') (achievement_tbl d)"
  by (simp add: updateExperience_def Let_def levelUpAchievement_def split: option.split)

lemma updateExperience_error: "fst (updateExperience fails d u g) = Inl e \<Longrightarrow> e = Internal"
  by (auto simp: updateExperience_def Let_def split: option.splits if_splits)

subsection \<open>The perfect-score check\<close>

lemma checkPerfectScore_frame:
  "progress_tbl (snd (checkPerfectScore fails d u l fs tp)) = progress_tbl d"
  "user_tbl (snd (checkPerfectScore fails d u l fs tp)) = user_tbl d"
  "lesson_tbl (snd (checkPerfectScore fails d u l fs tp)) = lesson_tbl d"
  "exercise_tbl (snd (checkPerfectScore fails d u l fs tp)) = exercise_tbl d"
  "enrollment_tbl (snd (checkPerfectScore fails d u l fs tp)) = enrollment_tbl d"
  "language_tbl (snd (checkPerfectScore fails d u l fs tp)) = language_tbl d"
  by (simp_all add: checkPerfectScore_def split: option.split)

lemma checkPerfectScore_None:
  assumes "fst (checkPerfectScore fails d u l fs tp) = None"
  shows "achievement_tbl (snd (checkPerfectScore fails d u l fs tp)) =
           achievement_tbl d @
           (if fs = tp \<and> findPerfectScore d u (''Perfect Score in '' @ lesson_title l) = None
            then [perfectScoreAchievement u (lesson_title l)] else [])"
  using assms
  by (auto simp: checkPerfectScore_def split: option.splits if_splits)

lemma checkPerfectScore_error: "fst (checkPerfectScore fails d u l fs tp) = Some e \<Longrightarrow> e = Internal"
  by (auto simp: checkPerfectScore_def split: option.splits if_splits)

subsection \<open>Counting perfect-score achievements\<close>

lemma perfectCount_filter:
  "perfectCount d u t =
     length (filter (\<lambda>a. ach_userId a = u \<and> ach_title a = t)
       (filter (\<lambda>a. ach_type a = ''perfect_score'') (achievement_tbl d)))"
  unfolding perfectCount_def filter_filter
  by (rule arg_cong [where f = length], rule filter_cong) auto

lemma findPerfectScore_None: "(findPerfectScore d u t = None) = (perfectCount d u t = 0)"
  by (auto simp: findPerfectScore_def perfectCount_def find_None_iff filter_empty_conv)

lemma perfectCount_cong:
  assumes "filter (\<lambda>a. ach_type a = ''perfect_score'') (achievement_tbl d') =
           filter (\<lambda>a. ach_type a = ''perfect_score'') (achievement_tbl d)"
  shows "perfectCount d' u t = perfectCount d u t"
  by (simp add: perfectCount_filter assms)

lemma updateExperience_count:
  "perfectCount (snd (updateExperience fails d userId g)) u t = perfectCount d u t"
  by (rule perfectCount_cong [OF updateExperience_perfect])

lemma checkPerfectScore_count:
  "perfectCount (snd (checkPerfectScore fails d userId l fs tp)) u t \<le> max 1 (perfectCount d u t)"
proof -
  define ttl where "ttl = ''Perfect Score in '' @ lesson_title l"
  define new where "new = perfectScoreAchievement userId (lesson_title l)"
  have unf: "checkPerfectScore fails d userId l fs tp =
     (if fs = tp then
        (if fails CL_AchievementFindFirst then (Some Internal, d)
         else case findPerfectScore d userId ttl of
           Some existing \<Rightarrow> (None, d)
         | None \<Rightarrow>
             (if fails CL_PerfectScoreCreate then (Some Internal, d)
              else (None, d\<lparr>achievement_tbl := achievement_tbl d @ [new]\<rparr>)))
      else (None, d))"
    unfolding checkPerfectScore_def ttl_def new_def by (rule refl)
  have new: "ach_userId new = userId" "ach_type new = ''perfect_score''" "ach_title new = ttl"
    by (simp_all add: new_def ttl_def perfectScoreAchievement_def)
  show ?thesis
  proof (cases "findPerfectScore d userId ttl")
    case None
    then have zero: "perfectCount d userId ttl = 0"
      by (simp add: findPerfectScore_None)
    show ?thesis
    proof (cases "u = userId \<and> t = ttl")
      case True
      with zero show ?thesis
        by (simp add: unf None perfectCount_def new)
    next
      case False
      then show ?thesis
        by (auto simp: unf None perfectCount_def new)
    qed
  next
    case (Some a)
    then show ?thesis
      by (simp add: unf)
  qed
qed

subsection \<open>A completion that succeeds\<close>

lemma recordCompletion_Inr:
  assumes "fst (recordCompletion fails d userId lessonId l enr rawScore spent now) = Inr resp"
  defines "tp \<equiv> sumPoints (activeExercises d lessonId)"
  defines "fs \<equiv> min rawScore tp"
  defines "d1 \<equiv> snd (upsertProgress d userId lessonId (enrollment_id enr) fs spent now)"
  defines "d2 \<equiv> snd (updateExperience fails d1 userId (fs div 10))"
  shows "fst (updateExperience fails d1 userId (fs div 10)) = Inr (user_tbl d userId)"
    and "fst (checkPerfectScore fails d2 userId l fs tp) = None"
    and "snd (recordCompletion fails d userId lessonId l enr rawScore spent now) =
           snd (checkPerfectScore fails d2 userId l fs tp)"
    and "resp = \<lparr>resp_progress = fst (upsertProgress d userId lessonId (enrollment_id enr) fs spent now),
                 resp_experienceGained = fs div 10,
                 resp_newLevel = (case user_tbl d userId of
                                    Some u \<Rightarrow> (experience u + fs div 10) div 100 + 1
                                  | None \<Rightarrow> 1)\<rparr>"
proof -
  obtain r1 x where ue: "updateExperience fails d1 userId (fs div 10) = (r1, x)"
    by (cases "updateExperience fails d1 userId (fs div 10)")
  obtain r2 y where cp: "checkPerfectScore fails d2 userId l fs tp = (r2, y)"
    by (cases "checkPerfectScore fails d2 userId l fs tp")
  have x: "x = d2" using ue by (simp add: d2_def)
  from assms(1) have nf: "\<not> fails CL_ExerciseFindMany" "\<not> fails CL_ProgressUpsert"
    by (auto simp: recordCompletion_def Let_def split: if_splits)
  have run: "recordCompletion fails d userId lessonId l enr rawScore spent now =
     (case r1 of Inl e \<Rightarrow> (Inl e, d2)
      | Inr usr \<Rightarrow> (case r2 of Some e \<Rightarrow> (Inl e, y)
           | None \<Rightarrow> (Inr \<lparr>resp_progress = fst (upsertProgress d userId lessonId (enrollment_id enr) fs spent now),
                 resp_experienceGained = fs div 10,
                 resp_newLevel = (case usr of
                                    Some u \<Rightarrow> (experience u + fs div 10) div 100 + 1
                                  | None \<Rightarrow> 1)\<rparr>, y)))"
    using nf ue cp x
    by (simp add: recordCompletion_def Let_def split_def tp_def fs_def d1_def split: sum.split option.split)
  from assms(1) run obtain usr where r1: "r1 = Inr usr"
    by (cases r1) auto
  from assms(1) run r1 have r2: "r2 = None"
    by (cases r2) auto
  have "usr = user_tbl d1 userId"
    using updateExperience_Inr(1)[of fails d1 userId "fs div 10" usr] ue r1 by simp
  then have usr: "usr = user_tbl d userId"
    by (simp add: d1_def upsertProgress_frame)
  show "fst (updateExperience fails d1 userId (fs div 10)) = Inr (user_tbl d userId)"
    using ue r1 usr by simp
  show "fst (checkPerfectScore fails d2 userId l fs tp) = None"
    using cp r2 by simp
  show "snd (recordCompletion fails d userId lessonId l enr rawScore spent now) =
           snd (checkPerfectScore fails d2 userId l fs tp)"
    using run r1 r2 cp by simp
  show "resp = \<lparr>resp_progress = fst (upsertProgress d userId lessonId (enrollment_id enr) fs spent now),
                 resp_experienceGained = fs div 10,
                 resp_newLevel = (case user_tbl d userId of
                                    Some u \<Rightarrow> (experience u + fs div 10) div 100 + 1
                                  | None \<Rightarrow> 1)\<rparr>"
    using assms(1) run r1 r2 usr by simp
qed

lemma completeLesson_Inr:
  assumes "fst (completeLesson fails d userId lessonId rawScore spent now) = Inr resp"
  obtains l enr where "findActiveLesson d lessonId = Some l"
    and "findActiveEnrollment d userId (lesson_languageId l) = Some enr"
    and "completeLesson fails d userId lessonId rawScore spent now =
         recordCompletion fails d userId lessonId l enr rawScore spent now"
  using assms
  by (auto simp: completeLesson_def split: if_splits option.splits)

lemma findActiveLesson_Some:
  "findActiveLesson d lessonId = Some l \<Longrightarrow> lesson_tbl d lessonId = Some l \<and> lesson_isActive l"
  by (auto simp: findActiveLesson_def split: option.splits if_splits)

lemma completeLesson_success:
  assumes ok: "fst (completeLesson fails d userId lessonId rawScore spent now) = Inr resp"
  defines "tp \<equiv> sumPoints (activeExercises d lessonId)"
  defines "fs \<equiv> min rawScore tp"
  defines "d' \<equiv> snd (completeLesson fails d userId lessonId rawScore spent now)"
  obtains l where "lesson_tbl d lessonId = Some l"
    and "resp_experienceGained resp = fs div 10"
    and "resp_newLevel resp =
           (case user_tbl d userId of
              Some u \<Rightarrow> (experience u + fs div 10) div 100 + 1
            | None \<Rightarrow> 1)"
    and "user_tbl d' =
           (case user_tbl d userId of
              None \<Rightarrow> user_tbl d
            | Some u \<Rightarrow> (user_tbl d)(userId \<mapsto>
                u\<lparr>experience := experience u + fs div 10,
                  level := (experience u + fs div 10) div 100 + 1\<rparr>))"
    and "achievement_tbl d' =
           achievement_tbl d @
           (case user_tbl d userId of
              None \<Rightarrow> []
            | Some u \<Rightarrow>
                if (experience u + fs div 10) div 100 + 1 > level u
                then [levelUpAchievement userId ((experience u + fs div 10) div 100 + 1)]
                else []) @
           (if fs = tp \<and> findPerfectScore d userId (''Perfect Score in '' @ lesson_title l) = None
            then [perfectScoreAchievement userId (lesson_title l)] else [])"
proof -
  from ok obtain l enr where l: "findActiveLesson d lessonId = Some l"
    and run: "completeLesson fails d userId lessonId rawScore spent now =
          recordCompletion fails d userId lessonId l enr rawScore spent now"
    by (rule completeLesson_Inr)
  from ok run
  have ok': "fst (recordCompletion fails d userId lessonId l enr rawScore spent now) = Inr resp"
    by simp
  define d1 where "d1 = snd (upsertProgress d userId lessonId (enrollment_id enr) fs spent now)"
  define d2 where "d2 = snd (updateExperience fails d1 userId (fs div 10))"
  define ttl where "ttl = ''Perfect Score in '' @ lesson_title l"
  have ue: "fst (updateExperience fails d1 userId (fs div 10)) = Inr (user_tbl d userId)"
    using recordCompletion_Inr(1) [OF ok'] by (simp add: fs_def tp_def d1_def)
  have cp: "fst (checkPerfectScore fails d2 userId l fs tp) = None"
    using recordCompletion_Inr(2) [OF ok'] by (simp add: fs_def tp_def d1_def d2_def)
  have d': "d' = snd (checkPerfectScore fails d2 userId l fs tp)"
    using recordCompletion_Inr(3) [OF ok'] by (simp add: d'_def run fs_def tp_def d1_def d2_def)
  have resp: "resp_experienceGained resp = fs div 10"
    "resp_newLevel resp =
       (case user_tbl d userId of
          Some u \<Rightarrow> (experience u + fs div 10) div 100 + 1
        | None \<Rightarrow> 1)"
    using recordCompletion_Inr(4) [OF ok'] unfolding fs_def tp_def by simp_all
  have t1: "user_tbl d1 = user_tbl d" "achievement_tbl d1 = achievement_tbl d"
    by (simp_all add: d1_def upsertProgress_frame)
  have "user_tbl d2 =
           (case user_tbl d userId of
              None \<Rightarrow> user_tbl d
            | Some u \<Rightarrow> (user_tbl d)(userId \<mapsto>
                u\<lparr>experience := experience u + fs div 10,
                  level := (experience u + fs div 10) div 100 + 1\<rparr>))"
    using updateExperience_Inr(2) [OF ue] unfolding d2_def [symmetric] t1 .
  moreover have "user_tbl d' = user_tbl d2"
    by (simp add: d' checkPerfectScore_frame)
  ultimately have users: "user_tbl d' =
           (case user_tbl d userId of
              None \<Rightarrow> user_tbl d
            | Some u \<Rightarrow> (user_tbl d)(userId \<mapsto>
                u\<lparr>experience := experience u + fs div 10,
                  level := (experience u + fs div 10) div 100 + 1\<rparr>))"
    by simp
  have a2: "achievement_tbl d2 =
           achievement_tbl d @
           (case user_tbl d userId of
              None \<Rightarrow> []
            | Some u \<Rightarrow>
                if (experience u + fs div 10) div 100 + 1 > level u
                then [levelUpAchievement userId ((experience u + fs div 10) div 100 + 1)]
                else [])"
    using updateExperience_Inr(3) [OF ue] unfolding d2_def [symmetric] t1 .
  have "perfectCount d2 userId ttl = perfectCount d userId ttl"
    by (simp add: d2_def updateExperience_count) (simp add: perfectCount_def t1)
  then have found: "(findPerfectScore d2 userId ttl = None) = (findPerfectScore d userId ttl = None)"
    by (simp add: findPerfectScore_None)
  have a3: "achievement_tbl d' = achievement_tbl d2 @
           (if fs = tp \<and> findPerfectScore d userId ttl = None
            then [perfectScoreAchievement userId (lesson_title l)] else [])"
    using checkPerfectScore_None [OF cp] found
    unfolding d' ttl_def by simp
  show thesis
  proof (rule that)
    show "lesson_tbl d lessonId = Some l"
      using findActiveLesson_Some [OF l] by simp
  qed (use resp users a2 a3 in \<open>simp_all add: ttl_def\<close>)
qed

subsection \<open>A completion, whatever its outcome\<close>

lemma recordCompletion_early:
  "fails CL_ExerciseFindMany \<or> fails CL_ProgressUpsert \<Longrightarrow>
   recordCompletion fails d userId lessonId l enr rawScore spent now = (Inl Internal, d)"
  by (auto simp: recordCompletion_def Let_def)

lemma recordCompletion_snd:
  fixes fails d userId lessonId l enr rawScore spent now
  defines "tp \<equiv> sumPoints (activeExercises d lessonId)"
  defines "fs \<equiv> min rawScore tp"
  defines "d1 \<equiv> snd (upsertProgress d userId lessonId (enrollment_id enr) fs spent now)"
  defines "d2 \<equiv> snd (updateExperience fails d1 userId (fs div 10))"
  shows "snd (recordCompletion fails d userId lessonId l enr rawScore spent now) = d
       \<or> snd (recordCompletion fails d userId lessonId l enr rawScore spent now) = d2
       \<or> snd (recordCompletion fails d userId lessonId l enr rawScore spent now) =
           snd (checkPerfectScore fails d2 userId l fs tp)"
proof -
  obtain r1 x where ue: "updateExperience fails d1 userId (fs div 10) = (r1, x)"
    by (cases "updateExperience fails d1 userId (fs div 10)")
  obtain r2 y where cp: "checkPerfectScore fails d2 userId l fs tp = (r2, y)"
    by (cases "checkPerfectScore fails d2 userId l fs tp")
  have x: "x = d2" using ue by (simp add: d2_def)
  show ?thesis
    using ue cp x
    by (cases r1; cases r2)
       (simp_all add: recordCompletion_def Let_def split_def tp_def fs_def d1_def)
qed

lemma recordCompletion_error:
  assumes "fst (recordCompletion fails d userId lessonId l enr rawScore spent now) = Inl e"
  shows "e = Internal"
proof -
  define tp where "tp = sumPoints (activeExercises d lessonId)"
  define fs where "fs = min rawScore tp"
  define d1 where "d1 = snd (upsertProgress d userId lessonId (enrollment_id enr) fs spent now)"
  define d2 where "d2 = snd (updateExperience fails d1 userId (fs div 10))"
  obtain r1 x where ue: "updateExperience fails d1 userId (fs div 10) = (r1, x)"
    by (cases "updateExperience fails d1 userId (fs div 10)")
  obtain r2 y where cp: "checkPerfectScore fails x userId l fs tp = (r2, y)"
    by (cases "checkPerfectScore fails x userId l fs tp")
  have e1: "r1 = Inl e' \<Longrightarrow> e' = Internal" for e'
    using updateExperience_error[of fails d1 userId "fs div 10" e'] ue by simp
  have e2: "r2 = Some e' \<Longrightarrow> e' = Internal" for e'
    using checkPerfectScore_error[of fails x userId l fs tp e'] cp by simp
  show ?thesis
    using assms ue cp e1 e2
    by (cases r1; cases r2)
       (auto simp: recordCompletion_def Let_def split_def tp_def fs_def d1_def split: if_splits)
qed

lemma completeLesson_cases:
  "(snd (completeLesson fails d userId lessonId rawScore spent now) = d \<and>
    fst (completeLesson fails d userId lessonId rawScore spent now) \<in>
      {Inl Internal, Inl LessonNotFound, Inl NotEnrolled})
   \<or> (\<exists>l enr. findActiveLesson d lessonId = Some l \<and>
         findActiveEnrollment d userId (lesson_languageId l) = Some enr \<and>
         \<not> fails CL_LessonFindUnique \<and> \<not> fails CL_EnrollmentFindFirst \<and>
         completeLesson fails d userId lessonId rawScore spent now =
           recordCompletion fails d userId lessonId l enr rawScore spent now)"
  by (simp add: completeLesson_def split: option.split)

lemma recordCompletion_count:
  "perfectCount (snd (recordCompletion fails d userId lessonId l enr rawScore spent now)) u t
     \<le> max 1 (perfectCount d u t)"
proof -
  define tp where "tp = sumPoints (activeExercises d lessonId)"
  define fs where "fs = min rawScore tp"
  define d1 where "d1 = snd (upsertProgress d userId lessonId (enrollment_id enr) fs spent now)"
  define d2 where "d2 = snd (updateExperience fails d1 userId (fs div 10))"
  have c2: "perfectCount d2 u t = perfectCount d u t"
    unfolding d2_def
    by (rule trans [OF perfectCount_cong [OF updateExperience_perfect]])
       (simp add: perfectCount_def d1_def upsertProgress_frame)
  have c3: "perfectCount (snd (checkPerfectScore fails d2 userId l fs tp)) u t
              \<le> max 1 (perfectCount d u t)"
    using checkPerfectScore_count [of fails d2 userId l fs tp u t] by (simp add: c2)
  from recordCompletion_snd [of fails d userId lessonId l enr rawScore spent now]
  show ?thesis
    unfolding tp_def [symmetric] fs_def [symmetric] d1_def [symmetric] d2_def [symmetric]
    using c2 c3 by auto
qed

lemma completeLesson_count:
  "perfectCount (snd (completeLesson fails d userId lessonId rawScore spent now)) u t
     \<le> max 1 (perfectCount d u t)"
  using completeLesson_cases [of fails d userId lessonId rawScore spent now]
    recordCompletion_count [of fails d userId lessonId _ _ rawScore spent now u t]
  by auto

lemma completeAll_count:
  "perfectCount d u t \<le> 1 \<Longrightarrow> perfectCount (completeAll fails d reqs) u t \<le> 1"
proof (induction reqs arbitrary: d)
  case Nil
  then show ?case by simp
next
  case (Cons r reqs)
  obtain userId lessonId rawScore spent now where r: "r = (userId, lessonId, rawScore, spent, now)"
    by (cases r)
  have "perfectCount (snd (completeLesson fails d userId lessonId rawScore spent now)) u t \<le> 1"
    using completeLesson_count [of fails d userId lessonId rawScore spent now u t] Cons.prems
    by simp
  then have "perfectCount
      (completeAll fails (snd (completeLesson fails d userId lessonId rawScore spent now)) reqs)
      u t \<le> 1"
    by (rule Cons.IH)
  then show ?case
    by (simp add: r)
qed

lemma recordCompletion_rows:
  assumes "user_tbl (snd (recordCompletion fails d userId lessonId l enr rawScore spent now)) k = Some u'"
  shows "user_tbl d k = Some u' \<or> (k = userId \<and> level u' = experience u' div 100 + 1)"
proof -
  define tp where "tp = sumPoints (activeExercises d lessonId)"
  define fs where "fs = min rawScore tp"
  define d1 where "d1 = snd (upsertProgress d userId lessonId (enrollment_id enr) fs spent now)"
  define d2 where "d2 = snd (updateExperience fails d1 userId (fs div 10))"
  have u2: "user_tbl d2 k = Some u' \<Longrightarrow>
      user_tbl d k = Some u' \<or> (k = userId \<and> level u' = experience u' div 100 + 1)"
    using updateExperience_rows [of fails d1 userId "fs div 10" k u']
    by (simp add: d2_def d1_def upsertProgress_frame)
  from recordCompletion_snd [of fails d userId lessonId l enr rawScore spent now] assms u2
  show ?thesis
    unfolding tp_def [symmetric] fs_def [symmetric] d1_def [symmetric] d2_def [symmetric]
    by (auto simp: checkPerfectScore_frame)
qed

lemma completeLesson_rows:
  assumes "user_tbl (snd (completeLesson fails d userId lessonId rawScore spent now)) k = Some u'"
  shows "user_tbl d k = Some u' \<or> (k = userId \<and> level u' = experience u' div 100 + 1)"
  using completeLesson_cases [of fails d userId lessonId rawScore spent now] assms
    recordCompletion_rows [of fails d userId lessonId _ _ rawScore spent now k u']
  by auto

subsection \<open>The streak check, case by case\<close>

lemma streakCheck_found:
  assumes "user_tbl d userId = Some u" and "\<not> fails ST_UserFindUnique"
  shows "streakCheck fails d userId today =
     (if lastLogin u = None \<or> (\<exists>ll. lastLogin u = Some ll \<and> daysSinceLastLogin today ll = 1) then
        (if fails ST_StreakUpdate then (Inl Internal, d)
         else (Inr \<lparr>resp_streak = streak u + 1, resp_lastLogin = lastLogin u\<rparr>,
               d\<lparr>user_tbl := (user_tbl d)(userId \<mapsto> u\<lparr>streak := streak u + 1\<rparr>)\<rparr>))
      else if \<exists>ll. lastLogin u = Some ll \<and> daysSinceLastLogin today ll > 1 then
        (if fails ST_StreakReset then (Inl Internal, d)
         else (Inr \<lparr>resp_streak = 0, resp_lastLogin = lastLogin u\<rparr>,
               d\<lparr>user_tbl := (user_tbl d)(userId \<mapsto> u\<lparr>streak := 0\<rparr>)\<rparr>))
      else (Inr \<lparr>resp_streak = streak u, resp_lastLogin = lastLogin u\<rparr>, d))"
  using assms
  by (cases "lastLogin u") (simp_all add: streakCheck_def streakGap_def Let_def)

lemma streakCheck_not_found:
  "user_tbl d userId = None \<or> fails ST_UserFindUnique \<Longrightarrow>
   snd (streakCheck fails d userId today) = d \<and>
   (\<forall>resp. fst (streakCheck fails d userId today) \<noteq> Inr resp)"
  by (auto simp: streakCheck_def)

lemma streakCheck_lastLogin:
  "map_option lastLogin (user_tbl (snd (streakCheck fails d userId today)) k) =
   map_option lastLogin (user_tbl d k)"
  by (auto simp: streakCheck_def streakGap_def Let_def split: option.splits)

lemma streakCheck_experience_level:
  "map_option (\<lambda>u. (experience u, level u)) (user_tbl (snd (streakCheck fails d userId today)) k) =
   map_option (\<lambda>u. (experience u, level u)) (user_tbl d k)"
  by (auto simp: streakCheck_def streakGap_def Let_def split: option.splits)

subsection \<open>Enrollment and the user table\<close>

lemma enroll_users: "user_tbl (snd (enroll fails d userId languageId newId now)) = user_tbl d"
  by (simp add: enroll_def Let_def split: option.split)

lemma unenroll_users: "user_tbl (snd (unenroll fails d userId languageId)) = user_tbl d"
  by (simp add: unenroll_def split: option.split)

lemma levelInvariant_frame:
  assumes "\<And>k. map_option (\<lambda>u. (experience u, level u)) (user_tbl d' k) =
               map_option (\<lambda>u. (experience u, level u)) (user_tbl d k)"
    and "levelInvariant d"
  shows "levelInvariant d'"
  unfolding levelInvariant_def
proof (intro allI impI)
  fix k u'
  assume row: "user_tbl d' k = Some u'"
  with assms(1) [of k] obtain u where "user_tbl d k = Some u"
    and "experience u' = experience u" "level u' = level u"
    by (cases "user_tbl d k") auto
  with assms(2) show "level u' = experience u' div 100 + 1"
    by (simp add: levelInvariant_def)
qed

subsection \<open>The scenario database, evaluated\<close>

lemma no_faults_never: "no_faults c = False"
  by (simp add: no_faults_def)

lemma exampleDb_sel:
  "user_tbl exampleDb =
     [''u1'' \<mapsto> \<lparr>experience = 95, level = 1, streak = 3, lastLogin = Some 0\<rparr>,
      ''u2'' \<mapsto> \<lparr>experience = 0, level = 1, streak = 0, lastLogin = None\<rparr>,
      ''u3'' \<mapsto> \<lparr>experience = 100, level = 2, streak = 0, lastLogin = None\<rparr>]"
  "lesson_tbl exampleDb =
     [''l1'' \<mapsto> \<lparr>lesson_languageId = ''es'', lesson_title = ''Basic Greetings'',
                 lesson_isActive = True\<rparr>,
      ''l2'' \<mapsto> \<lparr>lesson_languageId = ''es'', lesson_title = ''Colors'',
                 lesson_isActive = True\<rparr>]"
  "enrollment_tbl exampleDb =
     [(''u1'', ''es'') \<mapsto> \<lparr>enrollment_id = ''e1'', enrollment_level = 1,
                           enrollment_isActive = True, startedAt = 0\<rparr>,
      (''u2'', ''es'') \<mapsto> \<lparr>enrollment_id = ''e2'', enrollment_level = 1,
                           enrollment_isActive = False, startedAt = 0\<rparr>,
      (''u3'', ''es'') \<mapsto> \<lparr>enrollment_id = ''e3'', enrollment_level = 1,
                           enrollment_isActive = True, startedAt = 0\<rparr>]"
  "progress_tbl exampleDb = Map.empty"
  "achievement_tbl exampleDb = []"
  by (simp_all add: exampleDb_def)

lemma exampleDb_exercises:
  "activeExercises exampleDb ''l1'' =
     [\<lparr>exercise_lessonId = ''l1'', exercise_isActive = True, points = 10\<rparr>,
      \<lparr>exercise_lessonId = ''l1'', exercise_isActive = True, points = 10\<rparr>,
      \<lparr>exercise_lessonId = ''l1'', exercise_isActive = True, points = 15\<rparr>,
      \<lparr>exercise_lessonId = ''l1'', exercise_isActive = True, points = 15\<rparr>]"
  "activeExercises exampleDb ''l2'' = []"
  by (simp_all add: activeExercises_def exampleDb_def)

lemma exampleDb_points:
  "sumPoints (activeExercises exampleDb ''l1'') = 50"
  "sumPoints (activeExercises exampleDb ''l2'') = 0"
  by (simp_all add: exampleDb_exercises sumPoints_def)

lemmas run_defs = completeLesson_def recordCompletion_def findActiveLesson_def
  findActiveEnrollment_def upsertProgress_def updateExperience_def checkPerfectScore_def
  findPerfectScore_def Let_def

lemma example_u1:
  "user_tbl exampleDb ''u1'' =
     Some \<lparr>experience = 95, level = 1, streak = 3, lastLogin = Some 0\<rparr>"
  by (simp add: exampleDb_sel)

lemma example_invariant:
  "user_tbl exampleDb ''u1'' = Some \<lparr>experience = 95, level = 1, streak = 3, lastLogin = Some 0\<rparr>"
  "user_tbl exampleDb ''u3'' = Some \<lparr>experience = 100, level = 2, streak = 0, lastLogin = None\<rparr>"
  by (simp_all add: exampleDb_sel)

lemma example_lessons:
  "lesson_tbl exampleDb ''l1'' =
     Some \<lparr>lesson_languageId = ''es'', lesson_title = ''Basic Greetings'', lesson_isActive = True\<rparr>"
  "lesson_tbl exampleDb ''l2'' =
     Some \<lparr>lesson_languageId = ''es'', lesson_title = ''Colors'', lesson_isActive = True\<rparr>"
  by (simp_all add: exampleDb_sel)

lemma example_enrollments:
  "enrollment_tbl exampleDb (''u1'', ''es'') =
     Some \<lparr>enrollment_id = ''e1'', enrollment_level = 1, enrollment_isActive = True,
            startedAt = 0\<rparr>"
  "enrollment_tbl exampleDb (''u2'', ''es'') =
     Some \<lparr>enrollment_id = ''e2'', enrollment_level = 1, enrollment_isActive = False,
            startedAt = 0\<rparr>"
  "enrollment_tbl exampleDb (''u2'', ''fr'') = None"
  by (simp_all add: exampleDb_sel)

lemma example_levelInvariant: "levelInvariant exampleDb"
  by (auto simp: levelInvariant_def exampleDb_sel split: if_splits)

lemma example_days:
  "daysSinceLastLogin day 0 = 1"
  "daysSinceLastLogin (2 * day) 0 = 2"
  "daysSinceLastLogin (2 * day + 3600000) 0 = 2"
  by (simp_all add: daysSinceLastLogin_def day_def)

lemma intToString_2: "intToString 2 = ''2''"
  by (simp add: intToString_def natToString.simps digitChar_def)

lemma example_clamp:
  "fst (completeLesson no_faults exampleDb ''u1'' ''l1'' 60 120 1000) =
     Inr \<lparr>resp_progress = \<lparr>enrollmentId = ''e1'', score = 50, timeSpent = 120,
                             completed = True, completedAt = Some 1000\<rparr>,
          resp_experienceGained = 5, resp_newLevel = 2\<rparr>"
  by (simp add: run_defs no_faults_def exampleDb_sel exampleDb_points)

lemma example_full_score:
  "fst (completeLesson no_faults exampleDb ''u1'' ''l1'' 50 120 1000) =
     Inr \<lparr>resp_progress = \<lparr>enrollmentId = ''e1'', score = 50, timeSpent = 120,
                             completed = True, completedAt = Some 1000\<rparr>,
          resp_experienceGained = 5, resp_newLevel = 2\<rparr>"
  by (simp add: run_defs no_faults_def exampleDb_sel exampleDb_points)

lemma example_full_score_row:
  "user_tbl (snd (completeLesson no_faults exampleDb ''u1'' ''l1'' 50 120 1000)) ''u1'' =
     Some \<lparr>experience = 100, level = 2, streak = 3, lastLogin = Some 0\<rparr>"
  by (simp add: run_defs no_faults_def exampleDb_sel exampleDb_points)

lemma example_empty_lesson:
  "fst (completeLesson no_faults exampleDb ''u1'' ''l2'' 0 30 1000) =
     Inr \<lparr>resp_progress = \<lparr>enrollmentId = ''e1'', score = 0, timeSpent = 30,
                             completed = True, completedAt = Some 1000\<rparr>,
          resp_experienceGained = 0, resp_newLevel = 1\<rparr>"
  "achievement_tbl (snd (completeLesson no_faults exampleDb ''u1'' ''l2'' 0 30 1000)) =
     [perfectScoreAchievement ''u1'' ''Colors'']"
  by (simp_all add: run_defs no_faults_def exampleDb_sel exampleDb_points)

lemma example_not_enrolled:
  "fst (completeLesson no_faults exampleDb ''u2'' ''l1'' 50 120 1000) = Inl NotEnrolled"
  by (simp add: completeLesson_def findActiveLesson_def findActiveEnrollment_def no_faults_def
      exampleDb_sel)

lemma example_negative_score:
  "fst (completeLesson no_faults exampleDb ''u3'' ''l1'' (- 10) 120 1000) =
     Inr \<lparr>resp_progress = \<lparr>enrollmentId = ''e3'', score = - 10, timeSpent = 120,
                             completed = True, completedAt = Some 1000\<rparr>,
          resp_experienceGained = - 1, resp_newLevel = 1\<rparr>"
  "user_tbl (snd (completeLesson no_faults exampleDb ''u3'' ''l1'' (- 10) 120 1000)) ''u3'' =
     Some \<lparr>experience = 99, level = 1, streak = 0, lastLogin = None\<rparr>"
  by (simp_all add: run_defs no_faults_def exampleDb_sel exampleDb_points)

lemma example_streak:
  "streakCheck no_faults exampleDb ''u1'' day =
     (Inr \<lparr>resp_streak = 4, resp_lastLogin = Some 0\<rparr>,
      exampleDb\<lparr>user_tbl := (user_tbl exampleDb)(''u1'' \<mapsto>
        \<lparr>experience = 95, level = 1, streak = 4, lastLogin = Some 0\<rparr>)\<rparr>)"
  "streakCheck no_faults exampleDb ''u1'' (2 * day) =
     (Inr \<lparr>resp_streak = 0, resp_lastLogin = Some 0\<rparr>,
      exampleDb\<lparr>user_tbl := (user_tbl exampleDb)(''u1'' \<mapsto>
        \<lparr>experience = 95, level = 1, streak = 0, lastLogin = Some 0\<rparr>)\<rparr>)"
  by (simp_all add: streakCheck_found [OF example_u1] no_faults_never example_days)

lemma example_streak_again:
  "fst (streakCheck no_faults (snd (streakCheck no_faults exampleDb ''u1'' day)) ''u1'' day) =
     Inr \<lparr>resp_streak = 5, resp_lastLogin = Some 0\<rparr>"
  "user_tbl (snd (streakCheck no_faults (snd (streakCheck no_faults exampleDb ''u1'' day)) ''u1'' day))
     ''u1'' = Some \<lparr>experience = 95, level = 1, streak = 5, lastLogin = Some 0\<rparr>"
proof -
  have row: "user_tbl (snd (streakCheck no_faults exampleDb ''u1'' day)) ''u1'' =
      Some \<lparr>experience = 95, level = 1, streak = 4, lastLogin = Some 0\<rparr>"
    by (simp add: example_streak)
  show "fst (streakCheck no_faults (snd (streakCheck no_faults exampleDb ''u1'' day)) ''u1'' day) =
     Inr \<lparr>resp_streak = 5, resp_lastLogin = Some 0\<rparr>"
    by (simp add: streakCheck_found [OF row] no_faults_never example_days)
  show "user_tbl (snd (streakCheck no_faults (snd (streakCheck no_faults exampleDb ''u1'' day)) ''u1'' day))
     ''u1'' = Some \<lparr>experience = 95, level = 1, streak = 5, lastLogin = Some 0\<rparr>"
    by (simp add: streakCheck_found [OF row] no_faults_never example_days)
qed

section \<open>Score clamping\<close>

text \<open>
  Claim C1. When a lesson completion succeeds, the score of the progress row stored for
  (user, lesson), which is also the one in the response, equals
  \<open>min rawScore totalPossiblePoints\<close>, where \<open>totalPossiblePoints\<close> is the sum of the
  points of the lesson's active exercises; in particular a raw score above the total is
  stored as the total.
\<close>

theorem completion_persists_clamped_score:
  assumes "fst (completeLesson fails d userId lessonId rawScore spent now) = Inr resp"
  shows "map_option score
           (progress_tbl (snd (completeLesson fails d userId lessonId rawScore spent now))
              (userId, lessonId)) =
         Some (min rawScore (sum_list (map points (activeExercises d lessonId))))
       \<and> score (resp_progress resp) =
           min rawScore (sum_list (map points (activeExercises d lessonId)))
       \<and> (sum_list (map points (activeExercises d lessonId)) < rawScore \<longrightarrow>
            map_option score
              (progress_tbl (snd (completeLesson fails d userId lessonId rawScore spent now))
                 (userId, lessonId)) =
            Some (sum_list (map points (activeExercises d lessonId))))"
proof -
  define tp where "tp = sum_list (map points (activeExercises d lessonId))"
  from assms obtain l enr where
    run: "completeLesson fails d userId lessonId rawScore spent now =
          recordCompletion fails d userId lessonId l enr rawScore spent now"
    by (rule completeLesson_Inr)
  from assms run
  have ok: "fst (recordCompletion fails d userId lessonId l enr rawScore spent now) = Inr resp"
    by simp
  have tp: "sumPoints (activeExercises d lessonId) = tp"
    by (simp add: tp_def sumPoints_sum_list)
  have "progress_tbl (snd (recordCompletion fails d userId lessonId l enr rawScore spent now))
          (userId, lessonId) =
        Some (fst (upsertProgress d userId lessonId (enrollment_id enr) (min rawScore tp) spent now))"
    by (simp add: recordCompletion_Inr(3)[OF ok] checkPerfectScore_frame
        updateExperience_frame upsertProgress_row tp)
  then have row: "map_option score
      (progress_tbl (snd (completeLesson fails d userId lessonId rawScore spent now))
         (userId, lessonId)) = Some (min rawScore tp)"
    by (simp add: run upsertProgress_score)
  have "resp_progress resp =
        fst (upsertProgress d userId lessonId (enrollment_id enr) (min rawScore tp) spent now)"
    using recordCompletion_Inr(4)[OF ok] by (simp add: tp)
  then have resp: "score (resp_progress resp) = min rawScore tp"
    by (simp add: upsertProgress_score)
  from row resp show ?thesis
    unfolding tp_def [symmetric] by auto
qed

text \<open>
  The scenario of an over-reported score: the lesson is worth 50 points, the request
  reports 60, the stored score is 50.
\<close>

theorem completion_persists_clamped_score_witness:
  "fst (completeLesson no_faults exampleDb ''u1'' ''l1'' 60 120 1000) =
     Inr \<lparr>resp_progress = \<lparr>enrollmentId = ''e1'', score = 50, timeSpent = 120,
                             completed = True, completedAt = Some 1000\<rparr>,
          resp_experienceGained = 5, resp_newLevel = 2\<rparr>
   \<and> sum_list (map points (activeExercises exampleDb ''l1'')) = 50
   \<and> map_option score
        (progress_tbl (snd (completeLesson no_faults exampleDb ''u1'' ''l1'' 60 120 1000))
           (''u1'', ''l1'')) = Some 50"
  using completion_persists_clamped_score [OF example_clamp] example_clamp
  by (simp add: exampleDb_exercises)

section \<open>Experience accrual and level-up\<close>

text \<open>
  Claim C2. A successful lesson completion by a user with stored row \<open>u\<close> answers
  \<open>experienceGained = finalScore div 10\<close> (rounded down), stores
  \<open>experience u + experienceGained\<close> as the experience and
  \<open>newExperience div 100 + 1\<close> as the level, answers that level, and appends exactly one
  achievement of type \<^verbatim>\<open>level_up\<close>, titled "Level <newLevel>!", when the new level
  exceeds the stored one, and none otherwise.
\<close>

theorem completion_accrues_experience:
  assumes "fst (completeLesson fails d userId lessonId rawScore spent now) = Inr resp"
    and "user_tbl d userId = Some u"
  shows "let finalScore = min rawScore (sumPoints (activeExercises d lessonId));
             experienceGained = finalScore div 10;
             newExperience = experience u + experienceGained;
             newLevel = newExperience div 100 + 1;
             d' = snd (completeLesson fails d userId lessonId rawScore spent now)
         in resp_experienceGained resp = experienceGained
          \<and> resp_newLevel resp = newLevel
          \<and> user_tbl d' userId = Some (u\<lparr>experience := newExperience, level := newLevel\<rparr>)
          \<and> filter (\<lambda>a. ach_type a = ''level_up'') (achievement_tbl d') =
              filter (\<lambda>a. ach_type a = ''level_up'') (achievement_tbl d) @
              (if newLevel > level u then [levelUpAchievement userId newLevel] else [])
          \<and> ach_title (levelUpAchievement userId newLevel) =
              ''Level '' @ intToString newLevel @ ''!''"
proof -
  define fs where "fs = min rawScore (sumPoints (activeExercises d lessonId))"
  from assms(1) obtain l where
    "lesson_tbl d lessonId = Some l"
    and gained: "resp_experienceGained resp = fs div 10"
    and newLevel: "resp_newLevel resp =
           (case user_tbl d userId of
              Some u \<Rightarrow> (experience u + fs div 10) div 100 + 1
            | None \<Rightarrow> 1)"
    and users: "user_tbl (snd (completeLesson fails d userId lessonId rawScore spent now)) =
           (case user_tbl d userId of
              None \<Rightarrow> user_tbl d
            | Some u \<Rightarrow> (user_tbl d)(userId \<mapsto>
                u\<lparr>experience := experience u + fs div 10,
                  level := (experience u + fs div 10) div 100 + 1\<rparr>))"
    and achs: "achievement_tbl (snd (completeLesson fails d userId lessonId rawScore spent now)) =
           achievement_tbl d @
           (case user_tbl d userId of
              None \<Rightarrow> []
            | Some u \<Rightarrow>
                if (experience u + fs div 10) div 100 + 1 > level u
                then [levelUpAchievement userId ((experience u + fs div 10) div 100 + 1)]
                else []) @
           (if fs = sumPoints (activeExercises d lessonId)
               \<and> findPerfectScore d userId (''Perfect Score in '' @ lesson_title l) = None
            then [perfectScoreAchievement userId (lesson_title l)] else [])"
    unfolding fs_def by (rule completeLesson_success)
  show ?thesis
    unfolding Let_def fs_def [symmetric]
    using gained newLevel users achs assms(2)
    by (simp add: achievement_sel)
qed

text \<open>
  The scenario of experience 95 and a full score of 50 on a lesson worth 50: 5 gained,
  experience 100, level 2, and one level-up achievement titled "Level 2!", the stored
  level having been 1.
\<close>

theorem completion_accrues_experience_witness:
  "fst (completeLesson no_faults exampleDb ''u1'' ''l1'' 50 120 1000) =
     Inr \<lparr>resp_progress = \<lparr>enrollmentId = ''e1'', score = 50, timeSpent = 120,
                             completed = True, completedAt = Some 1000\<rparr>,
          resp_experienceGained = 5, resp_newLevel = 2\<rparr>
   \<and> user_tbl exampleDb ''u1'' =
       Some \<lparr>experience = 95, level = 1, streak = 3, lastLogin = Some 0\<rparr>
   \<and> user_tbl (snd (completeLesson no_faults exampleDb ''u1'' ''l1'' 50 120 1000)) ''u1'' =
       Some \<lparr>experience = 100, level = 2, streak = 3, lastLogin = Some 0\<rparr>
   \<and> filter (\<lambda>a. ach_type a = ''level_up'')
        (achievement_tbl (snd (completeLesson no_faults exampleDb ''u1'' ''l1'' 50 120 1000))) =
       [levelUpAchievement ''u1'' 2]
   \<and> ach_title (levelUpAchievement ''u1'' 2) = ''Level 2!''"
proof -
  have row: "user_tbl exampleDb ''u1'' =
      Some \<lparr>experience = 95, level = 1, streak = 3, lastLogin = Some 0\<rparr>"
    by (simp add: exampleDb_sel)
  show ?thesis
    using completion_accrues_experience [OF example_full_score row] example_full_score row
    by (simp add: Let_def exampleDb_points exampleDb_sel intToString_2)
qed

section \<open>The level invariant\<close>

text \<open>
  Claim C3. The invariant \<open>level = experience div 100 + 1\<close> holds after every mutation
  of the handlers. Whatever the outcome of a lesson completion, each user row it leaves
  is either the row as it was or a row whose level is derived from its experience; the
  streak check changes neither the experience nor the level of any row; enrolling and
  unenrolling leave the user table as it is. Hence a database in which every row
  satisfies the invariant stays so under all four handlers.
\<close>

theorem level_invariant_maintained:
  "(user_tbl (snd (completeLesson fails d userId lessonId rawScore spent now)) k = Some u' \<longrightarrow>
      user_tbl d k = Some u' \<or> level u' = experience u' div 100 + 1)
   \<and> map_option (\<lambda>u. (experience u, level u))
         (user_tbl (snd (streakCheck fails d userId today)) k) =
       map_option (\<lambda>u. (experience u, level u)) (user_tbl d k)
   \<and> user_tbl (snd (enroll fails d userId languageId newId now)) = user_tbl d
   \<and> user_tbl (snd (unenroll fails d userId languageId)) = user_tbl d
   \<and> (levelInvariant d \<longrightarrow>
        levelInvariant (snd (completeLesson fails d userId lessonId rawScore spent now)) \<and>
        levelInvariant (snd (streakCheck fails d userId today)) \<and>
        levelInvariant (snd (enroll fails d userId languageId newId now)) \<and>
        levelInvariant (snd (unenroll fails d userId languageId)))"
proof -
  have complete: "levelInvariant (snd (completeLesson fails d userId lessonId rawScore spent now))"
    if "levelInvariant d"
    unfolding levelInvariant_def
  proof (intro allI impI)
    fix j v
    assume "user_tbl (snd (completeLesson fails d userId lessonId rawScore spent now)) j = Some v"
    from completeLesson_rows [OF this] that
    show "level v = experience v div 100 + 1"
      by (auto simp: levelInvariant_def)
  qed
  have streak: "levelInvariant (snd (streakCheck fails d userId today))" if "levelInvariant d"
    using that by (rule levelInvariant_frame [rotated]) (rule streakCheck_experience_level)
  have others: "levelInvariant (snd (enroll fails d userId languageId newId now))"
    "levelInvariant (snd (unenroll fails d userId languageId))" if "levelInvariant d"
    using that by (simp_all add: levelInvariant_def enroll_users unenroll_users)
  show ?thesis
    using completeLesson_rows [of fails d userId lessonId rawScore spent now k u']
      complete streak others
    by (auto simp: streakCheck_experience_level enroll_users unenroll_users)
qed

text \<open>
  On the scenario database, whose rows satisfy the invariant, the completion rewrites
  the row of u1 to experience 100 and level 2 = 100 div 100 + 1.
\<close>

theorem level_invariant_maintained_witness:
  "user_tbl (snd (completeLesson no_faults exampleDb ''u1'' ''l1'' 50 120 1000)) ''u1'' =
     Some \<lparr>experience = 100, level = 2, streak = 3, lastLogin = Some 0\<rparr>
   \<and> user_tbl exampleDb ''u1'' =
       Some \<lparr>experience = 95, level = 1, streak = 3, lastLogin = Some 0\<rparr>
   \<and> level \<lparr>experience = 100, level = 2, streak = 3, lastLogin = Some 0\<rparr> =
       experience \<lparr>experience = 100, level = 2, streak = 3, lastLogin = Some 0\<rparr> div 100 + 1
   \<and> levelInvariant exampleDb
   \<and> levelInvariant (snd (completeLesson no_faults exampleDb ''u1'' ''l1'' 50 120 1000))
   \<and> levelInvariant (snd (streakCheck no_faults exampleDb ''u1'' day))
   \<and> levelInvariant (snd (enroll no_faults exampleDb ''u1'' ''es'' ''e4'' 1000))
   \<and> levelInvariant (snd (unenroll no_faults exampleDb ''u1'' ''es''))"
proof -
  have old: "user_tbl exampleDb ''u1'' =
      Some \<lparr>experience = 95, level = 1, streak = 3, lastLogin = Some 0\<rparr>"
    by (simp add: exampleDb_sel)
  from level_invariant_maintained
    [of no_faults exampleDb "''u1''" "''l1''" 50 120 1000 "''u1''"
        "\<lparr>experience = 100, level = 2, streak = 3, lastLogin = Some 0\<rparr>" day "''es''" "''e4''"]
    example_full_score_row old example_levelInvariant
  show ?thesis by simp
qed

section \<open>The perfect-score achievement\<close>

text \<open>
  Claim C4, as the handler has it. A successful completion appends a
  \<^verbatim>\<open>perfect_score\<close> achievement exactly when \<open>finalScore = totalPossiblePoints\<close> and
  the user holds no achievement of type \<^verbatim>\<open>perfect_score\<close> titled
  "Perfect Score in <lessonTitle>"; the handler does not ask for
  \<open>totalPossiblePoints > 0\<close>. Consequently, over any run of completion requests,
  failing ones included, a (user, title) pair that had at most one such achievement
  still has at most one.
\<close>

theorem perfect_score_unlock:
  "(fst (completeLesson fails d userId lessonId rawScore spent now) = Inr resp \<and>
    lesson_tbl d lessonId = Some l \<longrightarrow>
      (let totalPoints = sumPoints (activeExercises d lessonId);
           finalScore = min rawScore totalPoints;
           d' = snd (completeLesson fails d userId lessonId rawScore spent now)
       in filter (\<lambda>a. ach_type a = ''perfect_score'') (achievement_tbl d') =
            filter (\<lambda>a. ach_type a = ''perfect_score'') (achievement_tbl d) @
            (if finalScore = totalPoints \<and>
                findPerfectScore d userId (''Perfect Score in '' @ lesson_title l) = None
             then [perfectScoreAchievement userId (lesson_title l)] else [])))
   \<and> (perfectCount d u t \<le> 1 \<longrightarrow> perfectCount (completeAll fails d reqs) u t \<le> 1)"
proof (intro conjI impI)
  assume a: "fst (completeLesson fails d userId lessonId rawScore spent now) = Inr resp \<and>
    lesson_tbl d lessonId = Some l"
  then have ok: "fst (completeLesson fails d userId lessonId rawScore spent now) = Inr resp"
    and l: "lesson_tbl d lessonId = Some l"
    by simp_all
  define lv where "lv = (case user_tbl d userId of
              None \<Rightarrow> []
            | Some u \<Rightarrow>
                if (experience u + min rawScore (sumPoints (activeExercises d lessonId)) div 10) div 100 + 1 > level u
                then [levelUpAchievement userId ((experience u + min rawScore (sumPoints (activeExercises d lessonId)) div 10) div 100 + 1)]
                else [])"
  have lv: "filter (\<lambda>a. ach_type a = ''perfect_score'') lv = []"
    by (simp add: lv_def achievement_sel split: option.split)
  from ok obtain l' where "lesson_tbl d lessonId = Some l'"
    and "achievement_tbl (snd (completeLesson fails d userId lessonId rawScore spent now)) =
           achievement_tbl d @ lv @
           (if min rawScore (sumPoints (activeExercises d lessonId)) = sumPoints (activeExercises d lessonId)
               \<and> findPerfectScore d userId (''Perfect Score in '' @ lesson_title l') = None
            then [perfectScoreAchievement userId (lesson_title l')] else [])"
    unfolding lv_def by (rule completeLesson_success)
  with l have "achievement_tbl (snd (completeLesson fails d userId lessonId rawScore spent now)) =
           achievement_tbl d @ lv @
           (if min rawScore (sumPoints (activeExercises d lessonId)) = sumPoints (activeExercises d lessonId)
               \<and> findPerfectScore d userId (''Perfect Score in '' @ lesson_title l) = None
            then [perfectScoreAchievement userId (lesson_title l)] else [])"
    by simp
  then show "let totalPoints = sumPoints (activeExercises d lessonId);
           finalScore = min rawScore totalPoints;
           d' = snd (completeLesson fails d userId lessonId rawScore spent now)
       in filter (\<lambda>a. ach_type a = ''perfect_score'') (achievement_tbl d') =
            filter (\<lambda>a. ach_type a = ''perfect_score'') (achievement_tbl d) @
            (if finalScore = totalPoints \<and>
                findPerfectScore d userId (''Perfect Score in '' @ lesson_title l) = None
             then [perfectScoreAchievement userId (lesson_title l)] else [])"
    unfolding Let_def by (simp add: lv achievement_sel)
next
  assume "perfectCount d u t \<le> 1"
  then show "perfectCount (completeAll fails d reqs) u t \<le> 1"
    by (rule completeAll_count)
qed

text \<open>
  A perfect completion of "Basic Greetings" by u1 creates the achievement; completing
  the lesson twice in a row leaves one.
\<close>

theorem perfect_score_unlock_witness:
  "filter (\<lambda>a. ach_type a = ''perfect_score'')
     (achievement_tbl (snd (completeLesson no_faults exampleDb ''u1'' ''l1'' 60 120 1000))) =
     [perfectScoreAchievement ''u1'' ''Basic Greetings'']
   \<and> perfectCount exampleDb ''u1'' ''Perfect Score in Basic Greetings'' = 0
   \<and> perfectCount
        (completeAll no_faults exampleDb
           [(''u1'', ''l1'', 60, 120, 1000), (''u1'', ''l1'', 60, 120, 2000)])
        ''u1'' ''Perfect Score in Basic Greetings'' \<le> 1"
proof -
  have none: "findPerfectScore exampleDb ''u1'' (''Perfect Score in '' @ ''Basic Greetings'') = None"
    by (simp add: findPerfectScore_def exampleDb_sel)
  have zero: "perfectCount exampleDb ''u1'' ''Perfect Score in Basic Greetings'' = 0"
    by (simp add: perfectCount_def exampleDb_sel)
  from perfect_score_unlock
    [of no_faults exampleDb "''u1''" "''l1''" 60 120 1000 _ _ "''u1''"
        "''Perfect Score in Basic Greetings''"
        "[(''u1'', ''l1'', 60, 120, 1000), (''u1'', ''l1'', 60, 120, 2000)]"]
    example_clamp example_lessons(1) none zero
  show ?thesis
    by (simp add: Let_def exampleDb_points exampleDb_sel)
qed

text \<open>
  The condition \<open>totalPossiblePoints > 0\<close> of the claim is not in the handler: "Colors"
  has no active exercise, so its total is 0, a score of 0 is clamped to 0 = 0, and the
  completion creates "Perfect Score in Colors".
\<close>

theorem perfect_score_needs_no_points:
  "fst (completeLesson no_faults exampleDb ''u1'' ''l2'' 0 30 1000) =
     Inr \<lparr>resp_progress = \<lparr>enrollmentId = ''e1'', score = 0, timeSpent = 30,
                             completed = True, completedAt = Some 1000\<rparr>,
          resp_experienceGained = 0, resp_newLevel = 1\<rparr>
   \<and> \<not> 0 < sumPoints (activeExercises exampleDb ''l2'')
   \<and> achievement_tbl exampleDb = []
   \<and> achievement_tbl (snd (completeLesson no_faults exampleDb ''u1'' ''l2'' 0 30 1000)) =
       [perfectScoreAchievement ''u1'' ''Colors'']
   \<and> ach_type (perfectScoreAchievement ''u1'' ''Colors'') = ''perfect_score''
   \<and> ach_title (perfectScoreAchievement ''u1'' ''Colors'') = ''Perfect Score in Colors''"
  by (simp add: example_empty_lesson exampleDb_points exampleDb_sel achievement_sel)

section \<open>Failure and partial writes\<close>

text \<open>
  Claim C5, as the handler has it. A completion that is answered \<^verbatim>\<open>Lesson not found\<close>
  or \<^verbatim>\<open>Not enrolled in this language\<close>, or in which one of the calls up to and
  including the progress upsert throws, leaves the database exactly as it was. The
  handler opens no transaction, so nothing of the kind holds for a later failure.
\<close>

theorem rejected_completion_changes_nothing:
  assumes "fst (completeLesson fails d userId lessonId rawScore spent now) = Inl LessonNotFound
         \<or> fst (completeLesson fails d userId lessonId rawScore spent now) = Inl NotEnrolled
         \<or> fails CL_LessonFindUnique \<or> fails CL_EnrollmentFindFirst
         \<or> fails CL_ExerciseFindMany \<or> fails CL_ProgressUpsert"
  shows "snd (completeLesson fails d userId lessonId rawScore spent now) = d"
proof -
  from completeLesson_cases [of fails d userId lessonId rawScore spent now]
  show ?thesis
  proof (elim disjE conjE exE)
    fix l enr
    assume nf: "\<not> fails CL_LessonFindUnique" "\<not> fails CL_EnrollmentFindFirst"
      and run: "completeLesson fails d userId lessonId rawScore spent now =
           recordCompletion fails d userId lessonId l enr rawScore spent now"
    have early: "fails CL_ExerciseFindMany \<or> fails CL_ProgressUpsert"
    proof (rule ccontr)
      assume later: "\<not> (fails CL_ExerciseFindMany \<or> fails CL_ProgressUpsert)"
      with assms nf obtain e where
        e: "fst (recordCompletion fails d userId lessonId l enr rawScore spent now) = Inl e"
        and ne: "e \<noteq> Internal"
        unfolding run by auto
      from recordCompletion_error [OF e] ne show False by simp
    qed
    show ?thesis
      unfolding run by (simp add: recordCompletion_early [OF early])
  qed simp
qed

text \<open>
  u2 has no active enrollment: the completion is refused and the database is unchanged.
\<close>

theorem rejected_completion_changes_nothing_witness:
  "fst (completeLesson no_faults exampleDb ''u2'' ''l1'' 50 120 1000) = Inl NotEnrolled
   \<and> snd (completeLesson no_faults exampleDb ''u2'' ''l1'' 50 120 1000) = exampleDb"
  using rejected_completion_changes_nothing [of no_faults exampleDb "''u2''" "''l1''" 50 120 1000]
    example_not_enrolled
  by simp

text \<open>
  The mutations are not atomic. When the creation of the perfect-score achievement
  throws, the request is answered 500, yet the progress row, the new experience and
  level, and the level-up achievement written before it are all in the database.
\<close>

theorem completion_is_not_atomic:
  "fst (completeLesson (\<lambda>c. c = CL_PerfectScoreCreate) exampleDb ''u1'' ''l1'' 50 120 1000) =
     Inl Internal
   \<and> progress_tbl exampleDb (''u1'', ''l1'') = None
   \<and> progress_tbl
        (snd (completeLesson (\<lambda>c. c = CL_PerfectScoreCreate) exampleDb ''u1'' ''l1'' 50 120 1000))
        (''u1'', ''l1'') =
       Some \<lparr>enrollmentId = ''e1'', score = 50, timeSpent = 120,
              completed = True, completedAt = Some 1000\<rparr>
   \<and> user_tbl exampleDb ''u1'' =
       Some \<lparr>experience = 95, level = 1, streak = 3, lastLogin = Some 0\<rparr>
   \<and> user_tbl
        (snd (completeLesson (\<lambda>c. c = CL_PerfectScoreCreate) exampleDb ''u1'' ''l1'' 50 120 1000))
        ''u1'' =
       Some \<lparr>experience = 100, level = 2, streak = 3, lastLogin = Some 0\<rparr>
   \<and> achievement_tbl exampleDb = []
   \<and> achievement_tbl
        (snd (completeLesson (\<lambda>c. c = CL_PerfectScoreCreate) exampleDb ''u1'' ''l1'' 50 120 1000)) =
       [levelUpAchievement ''u1'' 2]"
  by (simp add: run_defs exampleDb_sel exampleDb_points achievement_sel)

section \<open>Repeating the streak check\<close>

text \<open>
  Claim C6, as the handler has it. The handler never writes \<^verbatim>\<open>lastLogin\<close>, so a
  repeated check sees the same gap as the first. For a user with a recorded last login,
  two checks at times whose gap in whole days is in both cases at most 0, or in both
  cases above 1 (for instance the same time twice, the gap not being 1), give the same
  response and the same database after the second call as after the first.
\<close>

theorem streak_check_repeatable:
  assumes "user_tbl d userId = Some u"
    and "lastLogin u = Some ll"
    and "daysSinceLastLogin t1 ll \<noteq> 1"
    and "daysSinceLastLogin t2 ll \<noteq> 1"
    and "(1 < daysSinceLastLogin t1 ll) = (1 < daysSinceLastLogin t2 ll)"
  shows "streakCheck fails (snd (streakCheck fails d userId t1)) userId t2 =
         streakCheck fails d userId t1"
proof (cases "fails ST_UserFindUnique")
  case True
  then show ?thesis by (simp add: streakCheck_def)
next
  case nf: False
  show ?thesis
  proof (cases "1 < daysSinceLastLogin t1 ll \<and> \<not> fails ST_StreakReset")
    case True
    define d1 where "d1 = d\<lparr>user_tbl := (user_tbl d)(userId \<mapsto> u\<lparr>streak := 0\<rparr>)\<rparr>"
    have first: "streakCheck fails d userId t1 =
        (Inr \<lparr>resp_streak = 0, resp_lastLogin = lastLogin u\<rparr>, d1)"
      using True assms(2,3)
      by (simp add: streakCheck_found [of d userId u fails t1, OF assms(1) nf] d1_def)
    have row: "user_tbl d1 userId = Some (u\<lparr>streak := 0\<rparr>)"
      by (simp add: d1_def)
    have "streakCheck fails d1 userId t2 =
        (Inr \<lparr>resp_streak = 0, resp_lastLogin = lastLogin u\<rparr>, d1)"
      using True assms(2,4,5)
      by (simp add: streakCheck_found [of d1 userId "u\<lparr>streak := 0\<rparr>" fails t2, OF row nf])
         (simp add: d1_def)
    then show ?thesis
      by (simp add: first)
  next
    case False
    then have first: "snd (streakCheck fails d userId t1) = d"
      using assms(2,3)
      by (auto simp: streakCheck_found [of d userId u fails t1, OF assms(1) nf])
    show ?thesis
      unfolding first using False assms(2-5)
      by (auto simp: streakCheck_found [of d userId u fails _, OF assms(1) nf])
  qed
qed

text \<open>
  Two days after the last login the streak of u1 is reset to 0; an hour later the second
  check answers the same and leaves the same database.
\<close>

theorem streak_check_repeatable_witness:
  "user_tbl exampleDb ''u1'' =
     Some \<lparr>experience = 95, level = 1, streak = 3, lastLogin = Some 0\<rparr>
   \<and> daysSinceLastLogin (2 * day) 0 = 2
   \<and> daysSinceLastLogin (2 * day + 3600000) 0 = 2
   \<and> streakCheck no_faults (snd (streakCheck no_faults exampleDb ''u1'' (2 * day))) ''u1''
        (2 * day + 3600000) =
       streakCheck no_faults exampleDb ''u1'' (2 * day)
   \<and> fst (streakCheck no_faults exampleDb ''u1'' (2 * day)) =
       Inr \<lparr>resp_streak = 0, resp_lastLogin = Some 0\<rparr>"
proof -
  have ll: "lastLogin \<lparr>experience = 95, level = 1, streak = 3, lastLogin = Some 0\<rparr> = Some 0"
    by simp
  have g1: "daysSinceLastLogin (2 * day) 0 \<noteq> 1"
    and g2: "daysSinceLastLogin (2 * day + 3600000) 0 \<noteq> 1"
    and same: "(1 < daysSinceLastLogin (2 * day) 0) = (1 < daysSinceLastLogin (2 * day + 3600000) 0)"
    by (simp_all add: example_days)
  from streak_check_repeatable [of exampleDb "''u1''" _ 0 "2 * day" "2 * day + 3600000" no_faults,
      OF example_u1 ll g1 g2 same]
  show ?thesis
    by (simp add: example_u1 example_days example_streak)
qed

text \<open>
  With a gap of exactly one day the check is not idempotent: called twice with the same
  time, it takes the streak of u1 from 3 to 4 and then from 4 to 5.
\<close>

theorem streak_check_counts_twice:
  "user_tbl exampleDb ''u1'' =
     Some \<lparr>experience = 95, level = 1, streak = 3, lastLogin = Some 0\<rparr>
   \<and> fst (streakCheck no_faults exampleDb ''u1'' day) =
       Inr \<lparr>resp_streak = 4, resp_lastLogin = Some 0\<rparr>
   \<and> user_tbl (snd (streakCheck no_faults exampleDb ''u1'' day)) ''u1'' =
       Some \<lparr>experience = 95, level = 1, streak = 4, lastLogin = Some 0\<rparr>
   \<and> fst (streakCheck no_faults (snd (streakCheck no_faults exampleDb ''u1'' day)) ''u1'' day) =
       Inr \<lparr>resp_streak = 5, resp_lastLogin = Some 0\<rparr>
   \<and> user_tbl (snd (streakCheck no_faults (snd (streakCheck no_faults exampleDb ''u1'' day))
        ''u1'' day)) ''u1'' =
       Some \<lparr>experience = 95, level = 1, streak = 5, lastLogin = Some 0\<rparr>"
  using example_u1 example_streak(1) example_streak_again
  by simp

section \<open>Streak increment and reset\<close>

text \<open>
  Claim C7. For a user with a recorded last login, a streak check that succeeds answers
  and stores \<open>streak + 1\<close> when the gap in whole days is 1, and 0 when the gap exceeds 1,
  whatever the streak was; any other gap leaves the streak as it is.
\<close>

theorem streak_increment_or_reset:
  assumes "user_tbl d userId = Some u"
    and "lastLogin u = Some ll"
    and "fst (streakCheck fails d userId today) = Inr resp"
  shows "resp_streak resp =
           (if daysSinceLastLogin today ll = 1 then streak u + 1
            else if daysSinceLastLogin today ll > 1 then 0
            else streak u)
       \<and> user_tbl (snd (streakCheck fails d userId today)) userId =
           Some (u\<lparr>streak := resp_streak resp\<rparr>)"
proof -
  have nf: "\<not> fails ST_UserFindUnique"
    using assms(3) streakCheck_not_found [of d userId fails today] by auto
  show ?thesis
    using assms unfolding streakCheck_found [of d userId u fails today, OF assms(1) nf]
    by (auto split: if_splits)
qed

text \<open>
  u1 has streak 3 and last login at time 0: two days later the streak is 0, one day
  later it is 4.
\<close>

theorem streak_increment_or_reset_witness:
  "user_tbl exampleDb ''u1'' =
     Some \<lparr>experience = 95, level = 1, streak = 3, lastLogin = Some 0\<rparr>
   \<and> daysSinceLastLogin (2 * day) 0 = 2
   \<and> fst (streakCheck no_faults exampleDb ''u1'' (2 * day)) =
       Inr \<lparr>resp_streak = 0, resp_lastLogin = Some 0\<rparr>
   \<and> user_tbl (snd (streakCheck no_faults exampleDb ''u1'' (2 * day))) ''u1'' =
       Some \<lparr>experience = 95, level = 1, streak = 0, lastLogin = Some 0\<rparr>
   \<and> daysSinceLastLogin day 0 = 1
   \<and> fst (streakCheck no_faults exampleDb ''u1'' day) =
       Inr \<lparr>resp_streak = 4, resp_lastLogin = Some 0\<rparr>
   \<and> user_tbl (snd (streakCheck no_faults exampleDb ''u1'' day)) ''u1'' =
       Some \<lparr>experience = 95, level = 1, streak = 4, lastLogin = Some 0\<rparr>"
proof -
  have ll: "lastLogin \<lparr>experience = 95, level = 1, streak = 3, lastLogin = Some 0\<rparr> = Some 0"
    by simp
  have two: "fst (streakCheck no_faults exampleDb ''u1'' (2 * day)) =
      Inr \<lparr>resp_streak = 0, resp_lastLogin = Some 0\<rparr>"
    by (simp add: example_streak)
  have one: "fst (streakCheck no_faults exampleDb ''u1'' day) =
      Inr \<lparr>resp_streak = 4, resp_lastLogin = Some 0\<rparr>"
    by (simp add: example_streak)
  from streak_increment_or_reset [OF example_u1 ll two]
    streak_increment_or_reset [OF example_u1 ll one] example_u1 two one
  show ?thesis
    by (simp add: example_days)
qed

section \<open>The streak check and the last login\<close>

text \<open>
  Claim C8, as the handler has it. The streak check never changes the \<^verbatim>\<open>lastLogin\<close>
  of any user, whether or not it changes the streak. A check that succeeds answers the
  stored \<^verbatim>\<open>lastLogin\<close> of the user, unchanged, together with the streak it has stored:
  the user table differs from the one before at most in that streak.
\<close>

theorem streak_check_keeps_lastLogin:
  "map_option lastLogin (user_tbl (snd (streakCheck fails d userId today)) k) =
     map_option lastLogin (user_tbl d k)
   \<and> (fst (streakCheck fails d userId today) = Inr resp \<longrightarrow>
        (\<exists>u. user_tbl d userId = Some u \<and> resp_lastLogin resp = lastLogin u \<and>
             user_tbl (snd (streakCheck fails d userId today)) =
               (user_tbl d)(userId \<mapsto> u\<lparr>streak := resp_streak resp\<rparr>)))"
proof (intro conjI impI)
  show "map_option lastLogin (user_tbl (snd (streakCheck fails d userId today)) k) =
     map_option lastLogin (user_tbl d k)"
    by (rule streakCheck_lastLogin)
next
  assume ok: "fst (streakCheck fails d userId today) = Inr resp"
  then have nf: "\<not> fails ST_UserFindUnique"
    using streakCheck_not_found [of d userId fails today] by auto
  from ok obtain u where u: "user_tbl d userId = Some u"
    using streakCheck_not_found [of d userId fails today] by (cases "user_tbl d userId") auto
  have idem: "(user_tbl d)(userId \<mapsto> u\<lparr>streak := streak u\<rparr>) = user_tbl d"
    using u by (simp add: map_upd_triv)
  have "resp_lastLogin resp = lastLogin u \<and>
      user_tbl (snd (streakCheck fails d userId today)) =
        (user_tbl d)(userId \<mapsto> u\<lparr>streak := resp_streak resp\<rparr>)"
    using ok idem unfolding streakCheck_found [of d userId u fails today, OF u nf]
    by (auto split: if_splits)
  with u show "\<exists>u. user_tbl d userId = Some u \<and> resp_lastLogin resp = lastLogin u \<and>
             user_tbl (snd (streakCheck fails d userId today)) =
               (user_tbl d)(userId \<mapsto> u\<lparr>streak := resp_streak resp\<rparr>)"
    by blast
qed

text \<open>
  One day after the last login of u1 the answer is streak 4 with the last login still
  at time 0.
\<close>

theorem streak_check_keeps_lastLogin_witness:
  "fst (streakCheck no_faults exampleDb ''u1'' day) =
     Inr \<lparr>resp_streak = 4, resp_lastLogin = Some 0\<rparr>
   \<and> user_tbl (snd (streakCheck no_faults exampleDb ''u1'' day)) =
       (user_tbl exampleDb)(''u1'' \<mapsto>
          \<lparr>experience = 95, level = 1, streak = 4, lastLogin = Some 0\<rparr>)
   \<and> map_option lastLogin (user_tbl (snd (streakCheck no_faults exampleDb ''u1'' day)) ''u1'') =
       Some (Some 0)"
proof -
  have one: "fst (streakCheck no_faults exampleDb ''u1'' day) =
      Inr \<lparr>resp_streak = 4, resp_lastLogin = Some 0\<rparr>"
    by (simp add: example_streak)
  from streak_check_keeps_lastLogin
    [of no_faults exampleDb "''u1''" day "''u1''" "\<lparr>resp_streak = 4, resp_lastLogin = Some 0\<rparr>"]
    one example_u1
  show ?thesis
    by auto
qed

text \<open>
  The streak of u1 changes from 3 to 4 while the stored and the answered last login
  stay at time 0, not at the time of the check.
\<close>

theorem streak_change_without_lastLogin_update:
  "map_option streak (user_tbl exampleDb ''u1'') = Some 3
   \<and> map_option streak (user_tbl (snd (streakCheck no_faults exampleDb ''u1'' day)) ''u1'') = Some 4
   \<and> map_option lastLogin (user_tbl (snd (streakCheck no_faults exampleDb ''u1'' day)) ''u1'') =
       Some (Some 0)
   \<and> fst (streakCheck no_faults exampleDb ''u1'' day) =
       Inr \<lparr>resp_streak = 4, resp_lastLogin = Some 0\<rparr>
   \<and> day \<noteq> 0"
proof -
  have "day \<noteq> 0"
    by (simp add: day_def)
  then show ?thesis
    by (simp add: example_u1 example_streak)
qed

section \<open>Level monotonicity\<close>

text \<open>
  Claim C9, as the handler has it. For a successful completion with a raw score that is
  not negative, on a lesson whose active exercises have no negative points, by a user
  whose stored level is the one its experience gives, the level answered and the level
  stored are at least the level before. The handler does not reject a negative score.
\<close>

theorem level_never_decreases:
  assumes "fst (completeLesson fails d userId lessonId rawScore spent now) = Inr resp"
    and "user_tbl d userId = Some u"
    and "level u = experience u div 100 + 1"
    and "0 \<le> rawScore"
    and "\<forall>ex \<in> set (activeExercises d lessonId). 0 \<le> points ex"
  shows "level u \<le> resp_newLevel resp
       \<and> (\<exists>u'. user_tbl (snd (completeLesson fails d userId lessonId rawScore spent now)) userId
                  = Some u' \<and> level u \<le> level u')"
proof -
  define fs where "fs = min rawScore (sumPoints (activeExercises d lessonId))"
  have "0 \<le> sum_list (map points (activeExercises d lessonId))"
    using assms(5) by (intro sum_list_nonneg) auto
  then have "0 \<le> fs"
    using assms(4) by (simp add: fs_def sumPoints_sum_list)
  then have "experience u \<le> experience u + fs div 10"
    by (simp add: pos_imp_zdiv_nonneg_iff)
  then have "experience u div 100 \<le> (experience u + fs div 10) div 100"
    by (rule zdiv_mono1) simp
  then have up: "level u \<le> (experience u + fs div 10) div 100 + 1"
    using assms(3) by simp
  from assms(1) obtain l where
    "resp_newLevel resp =
       (case user_tbl d userId of
          Some u \<Rightarrow> (experience u + fs div 10) div 100 + 1
        | None \<Rightarrow> 1)"
    and "user_tbl (snd (completeLesson fails d userId lessonId rawScore spent now)) =
           (case user_tbl d userId of
              None \<Rightarrow> user_tbl d
            | Some u \<Rightarrow> (user_tbl d)(userId \<mapsto>
                u\<lparr>experience := experience u + fs div 10,
                  level := (experience u + fs div 10) div 100 + 1\<rparr>))"
    unfolding fs_def by (rule completeLesson_success)
  with assms(2) up show ?thesis
    by simp
qed

text \<open>
  u1, at level 1 = 95 div 100 + 1, completes for 50 points and is at level 2.
\<close>

theorem level_never_decreases_witness:
  "fst (completeLesson no_faults exampleDb ''u1'' ''l1'' 50 120 1000) =
     Inr \<lparr>resp_progress = \<lparr>enrollmentId = ''e1'', score = 50, timeSpent = 120,
                             completed = True, completedAt = Some 1000\<rparr>,
          resp_experienceGained = 5, resp_newLevel = 2\<rparr>
   \<and> user_tbl exampleDb ''u1'' =
       Some \<lparr>experience = 95, level = 1, streak = 3, lastLogin = Some 0\<rparr>
   \<and> map_option level
        (user_tbl (snd (completeLesson no_faults exampleDb ''u1'' ''l1'' 50 120 1000)) ''u1'') =
       Some 2"
proof -
  have pts: "\<forall>ex \<in> set (activeExercises exampleDb ''l1''). 0 \<le> points ex"
    by (simp add: exampleDb_exercises)
  have inv: "level \<lparr>experience = 95, level = 1, streak = 3, lastLogin = Some 0\<rparr> =
      experience \<lparr>experience = 95, level = 1, streak = 3, lastLogin = Some 0\<rparr> div 100 + 1"
    by simp
  have nonneg: "(0::int) \<le> 50"
    by simp
  from level_never_decreases [OF example_full_score example_invariant(1) inv nonneg pts]
    example_full_score example_invariant(1) example_full_score_row
  show ?thesis by simp
qed

text \<open>
  u3 has experience 100 and level 2. A reported score of -10 is stored as it is, the
  experience gained is -1, and the level answered and stored is 1.
\<close>

theorem level_decreases_on_negative_score:
  "user_tbl exampleDb ''u3'' =
     Some \<lparr>experience = 100, level = 2, streak = 0, lastLogin = None\<rparr>
   \<and> fst (completeLesson no_faults exampleDb ''u3'' ''l1'' (- 10) 120 1000) =
     Inr \<lparr>resp_progress = \<lparr>enrollmentId = ''e3'', score = - 10, timeSpent = 120,
                             completed = True, completedAt = Some 1000\<rparr>,
          resp_experienceGained = - 1, resp_newLevel = 1\<rparr>
   \<and> user_tbl (snd (completeLesson no_faults exampleDb ''u3'' ''l1'' (- 10) 120 1000)) ''u3'' =
     Some \<lparr>experience = 99, level = 1, streak = 0, lastLogin = None\<rparr>"
  by (simp add: example_negative_score example_invariant)

section \<open>Unenrolling twice\<close>

text \<open>
  Claim C10. Whenever an enrollment row exists for (user, language), active or not,
  unenrolling succeeds and leaves the row with \<^verbatim>\<open>isActive\<close> false, and unenrolling
  again gives the same answer and the same database. The answer is
  \<^verbatim>\<open>Enrollment not found\<close> exactly when the lookup does not throw and there is no row
  for the pair.
\<close>

theorem unenroll_idempotent:
  "(enrollment_tbl d (userId, languageId) = Some e \<longrightarrow>
      fst (unenroll no_faults d userId languageId) = Inr ()
    \<and> enrollment_tbl (snd (unenroll no_faults d userId languageId)) =
        (enrollment_tbl d)((userId, languageId) \<mapsto> e\<lparr>enrollment_isActive := False\<rparr>)
    \<and> unenroll no_faults (snd (unenroll no_faults d userId languageId)) userId languageId =
        unenroll no_faults d userId languageId)
   \<and> ((fst (unenroll fails d userId languageId) = Inl EnrollmentNotFound) =
        (\<not> fails UN_EnrollmentFindUnique \<and> enrollment_tbl d (userId, languageId) = None))"
  by (auto simp: unenroll_def no_faults_def split: option.splits)

text \<open>
  u2 has an enrollment that is already inactive, u1 an active one; neither user has a
  row for the language "fr".
\<close>

theorem unenroll_idempotent_witness:
  "enrollment_tbl exampleDb (''u2'', ''es'') =
     Some \<lparr>enrollment_id = ''e2'', enrollment_level = 1, enrollment_isActive = False,
            startedAt = 0\<rparr>
   \<and> fst (unenroll no_faults exampleDb ''u2'' ''es'') = Inr ()
   \<and> enrollment_tbl (snd (unenroll no_faults exampleDb ''u2'' ''es'')) (''u2'', ''es'') =
       Some \<lparr>enrollment_id = ''e2'', enrollment_level = 1, enrollment_isActive = False,
              startedAt = 0\<rparr>
   \<and> unenroll no_faults (snd (unenroll no_faults exampleDb ''u2'' ''es'')) ''u2'' ''es'' =
       unenroll no_faults exampleDb ''u2'' ''es''
   \<and> enrollment_tbl exampleDb (''u1'', ''es'') =
       Some \<lparr>enrollment_id = ''e1'', enrollment_level = 1, enrollment_isActive = True,
              startedAt = 0\<rparr>
   \<and> fst (unenroll no_faults exampleDb ''u1'' ''es'') = Inr ()
   \<and> enrollment_tbl (snd (unenroll no_faults exampleDb ''u1'' ''es'')) (''u1'', ''es'') =
       Some \<lparr>enrollment_id = ''e1'', enrollment_level = 1, enrollment_isActive = False,
              startedAt = 0\<rparr>
   \<and> unenroll no_faults (snd (unenroll no_faults exampleDb ''u1'' ''es'')) ''u1'' ''es'' =
       unenroll no_faults exampleDb ''u1'' ''es''
   \<and> enrollment_tbl exampleDb (''u2'', ''fr'') = None
   \<and> fst (unenroll no_faults exampleDb ''u2'' ''fr'') = Inl EnrollmentNotFound"
proof -
  have nf: "\<not> no_faults UN_EnrollmentFindUnique"
    by (simp add: no_faults_def)
  from unenroll_idempotent [of exampleDb "''u2''" "''es''" _ no_faults]
    unenroll_idempotent [of exampleDb "''u1''" "''es''" _ no_faults]
    unenroll_idempotent [of exampleDb "''u2''" "''fr''" _ no_faults]
    example_enrollments nf
  show ?thesis
    by simp
qed

end
